theory Spec2Isabelle
  imports Main
begin

section \<open>JavaScript strings\<close>

text \<open>
  A JavaScript string is modelled as a \<^typ>\<open>string\<close>; every \<^typ>\<open>char\<close> stands for one
  UTF-16 code unit below 256, so \<open>length\<close> is the \<open>.length\<close> of the source. A string
  is truthy exactly when it is not empty; \<open>null\<close> and \<open>undefined\<close> are \<open>None\<close>.
\<close>

fun truthy :: "string option \<Rightarrow> bool" where
  "truthy None = False"
| "truthy (Some s) = (s \<noteq> [])"

text \<open>\<open>a || b\<close> on strings.\<close>

definition or_else :: "string \<Rightarrow> string \<Rightarrow> string" where
  "or_else a b = (if a \<noteq> [] then a else b)"

text \<open>The white space \<open>String.prototype.trim\<close> removes, among the code units below 256.\<close>

definition is_space :: "char \<Rightarrow> bool" where
  "is_space c = (c \<in> set [CHR 0x09, CHR 0x0A, CHR 0x0B, CHR 0x0C, CHR 0x0D, CHR 0x20, CHR 0xA0])"

definition trim :: "string \<Rightarrow> string" where
  "trim s = rev (dropWhile is_space (rev (dropWhile is_space s)))"

fun starts_with :: "string \<Rightarrow> string \<Rightarrow> bool" where
  "starts_with [] s = True"
| "starts_with (p # ps) [] = False"
| "starts_with (p # ps) (c # cs) = (p = c \<and> starts_with ps cs)"

text \<open>\<open>s.includes(sub)\<close>.\<close>

fun js_includes :: "string \<Rightarrow> string \<Rightarrow> bool" where
  "js_includes sub [] = (sub = [])"
| "js_includes sub (c # cs) = (starts_with sub (c # cs) \<or> js_includes sub cs)"

text \<open>\<open>s.split(sep)[0]\<close> for a separator that is not empty: the text before its first occurrence.\<close>

fun split_first :: "string \<Rightarrow> string \<Rightarrow> string" where
  "split_first sep [] = []"
| "split_first sep (c # cs) = (if starts_with sep (c # cs) then [] else c # split_first sep cs)"

text \<open>\<open>s.replace(pat, rep)\<close> with a string pattern: the first occurrence only.\<close>

fun replace_first :: "string \<Rightarrow> string \<Rightarrow> string \<Rightarrow> string" where
  "replace_first pat rep [] = (if pat = [] then rep else [])"
| "replace_first pat rep (c # cs) =
     (if starts_with pat (c # cs) then rep @ drop (length pat) (c # cs)
      else c # replace_first pat rep cs)"

text \<open>\<open>arr.join(sep)\<close>.\<close>

fun join :: "string \<Rightarrow> string list \<Rightarrow> string" where
  "join sep [] = []"
| "join sep [x] = x"
| "join sep (x # y # ys) = x @ sep @ join sep (y # ys)"

text \<open>\<open>s.toLowerCase()\<close> on the code units below 256.\<close>

definition lower_char :: "char \<Rightarrow> char" where
  "lower_char c =
     (let n = of_char c :: nat in
      if (65 \<le> n \<and> n \<le> 90) \<or> (192 \<le> n \<and> n \<le> 222 \<and> n \<noteq> 215) then char_of (n + 32) else c)"

definition toLowerCase :: "string \<Rightarrow> string" where
  "toLowerCase s = map lower_char s"

text \<open>\<open>arr.find(p)\<close>: the first element that satisfies \<open>p\<close>, or \<open>undefined\<close>.\<close>

fun find_first :: "('a \<Rightarrow> bool) \<Rightarrow> 'a list \<Rightarrow> 'a option" where
  "find_first p [] = None"
| "find_first p (x # xs) = (if p x then Some x else find_first p xs)"

text \<open>\<open>[...new Set(arr)]\<close>: the first occurrence of every value, in order.\<close>

fun unique :: "string list \<Rightarrow> string list \<Rightarrow> string list" where
  "unique seen [] = []"
| "unique seen (x # xs) = (if x \<in> set seen then unique seen xs else x # unique (x # seen) xs)"

text \<open>A number in a template string.\<close>

fun digits :: "nat \<Rightarrow> nat \<Rightarrow> string" where
  "digits 0 n = []"
| "digits (Suc fuel) n =
     (if n < 10 then [char_of (48 + n)] else digits fuel (n div 10) @ [char_of (48 + n mod 10)])"

definition show_nat :: "nat \<Rightarrow> string" where
  "show_nat n = digits (Suc n) n"

section \<open>The profile record and the emptiness predicates\<close>

text \<open>The object \<open>data\<close> that \<open>scrapeLinkedInProfile\<close> builds.\<close>

record profile =
  url :: string
  name :: string
  job_position :: string
  photo :: string
  company :: string
  city :: string
  website :: string
  email :: string
  phone :: string
  additional_info :: string
  company_photo :: string
  company_linkedin_url :: string
  birthday :: string

text \<open>\<open>data[field]\<close>: a property read by name; a name the object does not have is \<open>undefined\<close>.\<close>

definition profile_get :: "profile \<Rightarrow> string \<Rightarrow> string option" where
  "profile_get d f =
     (if f = ''url'' then Some (url d)
      else if f = ''name'' then Some (name d)
      else if f = ''job_position'' then Some (job_position d)
      else if f = ''photo'' then Some (photo d)
      else if f = ''company'' then Some (company d)
      else if f = ''city'' then Some (city d)
      else if f = ''website'' then Some (website d)
      else if f = ''email'' then Some (email d)
      else if f = ''phone'' then Some (phone d)
      else if f = ''additional_info'' then Some (additional_info d)
      else if f = ''company_photo'' then Some (company_photo d)
      else if f = ''company_linkedin_url'' then Some (company_linkedin_url d)
      else if f = ''birthday'' then Some (birthday d)
      else None)"

text \<open>
  The loop \<open>for (const field of keyFields) if (data[field]) return false; return true\<close>
  shared by both predicates.
\<close>

fun all_fields_empty :: "(string \<Rightarrow> string option) \<Rightarrow> string list \<Rightarrow> bool" where
  "all_fields_empty obj [] = True"
| "all_fields_empty obj (f # fs) = (if truthy (obj f) then False else all_fields_empty obj fs)"

definition profileKeyFields :: "string list" where
  "profileKeyFields =
     [''name'', ''job_position'', ''company'', ''city'', ''website'', ''email'', ''phone'',
      ''additional_info'']"

text \<open>\<open>isProfileDataEmpty\<close> of the content script; \<open>None\<close> is a falsy \<open>data\<close>.\<close>

definition isProfileDataEmpty :: "profile option \<Rightarrow> bool" where
  "isProfileDataEmpty data =
     (case data of None \<Rightarrow> True | Some d \<Rightarrow> all_fields_empty (profile_get d) profileKeyFields)"

definition payloadKeyFields :: "string list" where
  "payloadKeyFields =
     [''name'', ''company'', ''job_position'', ''email'', ''phone'', ''website'', ''city'',
      ''photo'', ''company_photo'', ''company_linkedin_url'']"

text \<open>
  \<open>isPayloadDataEmpty\<close> of the popup. The payload is an object whose properties are strings
  or \<open>null\<close>.
\<close>

definition isPayloadDataEmpty :: "(string \<Rightarrow> string option) option \<Rightarrow> bool" where
  "isPayloadDataEmpty payload =
     (case payload of None \<Rightarrow> True | Some p \<Rightarrow> all_fields_empty p payloadKeyFields)"

definition empty_profile :: profile where
  "empty_profile =
     \<lparr>url = [], name = [], job_position = [], photo = [], company = [], city = [],
      website = [], email = [], phone = [], additional_info = [], company_photo = [],
      company_linkedin_url = [], birthday = []\<rparr>"

section \<open>The scraper of the content script\<close>

text \<open>
  The document is read through selectors only. It is modelled by what each selector chain of
  \<open>scrapeLinkedInProfile\<close> finds: \<open>None\<close> is a selector that finds nothing, a string is
  the \<open>innerText\<close>, \<open>src\<close> or \<open>href\<close> of the element found.
\<close>

text \<open>
  An anchor of a website list: its \<open>href\<close>, the host name and the \<open>url\<close> search parameter
  of \<open>new URL(l.href)\<close> (no host name when the constructor throws), its text and the text
  of its next sibling.
\<close>

record link =
  l_href :: string
  l_hostname :: "string option"
  l_url_param :: "string option"
  l_text :: string
  l_next_text :: "string option"

text \<open>The first item of the old experience section.\<close>

record old_experience_item =
  oe_logo_img_src :: "string option"
  oe_logo_href :: "string option"
  oe_multi_role :: bool
  oe_multi_company :: "string option"
  oe_multi_job :: "string option"
  oe_single_job :: "string option"
  oe_single_company :: "string option"

text \<open>The first item of the new experience section; the logo is its \<open>alt\<close> and \<open>src\<close>.\<close>

record new_experience_item =
  ne_has_sub_items :: bool
  ne_top_ptags :: "string list"
  ne_logo :: "(string \<times> string) option"
  ne_first_sub_role :: "string option"
  ne_ptags :: "string list"
  ne_link_href :: "string option"

text \<open>A \<open>section.pv-contact-info__contact-type\<close> of the contact info modal.\<close>

record contact_section =
  cs_header :: "string option"
  cs_a_href :: "string option"
  cs_t14_span :: "string option"
  cs_links :: "link list"

record document =
  href :: string
  main_section :: "(string option \<times> string option) option"
  aria_photo_src :: "string option"
  new_name_text :: "string option"
  contact_link_city :: "string option"
  about_text :: "string option"
  old_experience :: "old_experience_item option"
  new_experience :: "new_experience_item option"
  svg_email_href :: "string option"
  svg_phone_texts :: "string list option"
  svg_birthday_texts :: "string list option"
  svg_links :: "link list option"
  modal_sections :: "contact_section list option"
  dom_exception :: "string option"

text \<open>An entry of \<open>websiteList\<close>.\<close>

record website_entry =
  w_url :: string
  w_desc :: string

text \<open>A thrown \<open>Error\<close> with its message.\<close>

datatype js_error = Error string

fun message :: "js_error \<Rightarrow> string" where
  "message (Error m) = m"

definition newline :: string where
  "newline = [CHR 0x0A]"

text \<open>\<open>el?.innerText?.trim() || ''\<close>.\<close>

definition text_or_empty :: "string option \<Rightarrow> string" where
  "text_or_empty t = (case t of None \<Rightarrow> [] | Some s \<Rightarrow> trim s)"

text \<open>\<open>el?.src || ''\<close>.\<close>

definition attr_or_empty :: "string option \<Rightarrow> string" where
  "attr_or_empty t = (case t of None \<Rightarrow> [] | Some s \<Rightarrow> s)"

text \<open>The current URL without its query string and without an overlay suffix.\<close>

definition clean_current_url :: "string \<Rightarrow> string" where
  "clean_current_url h =
     (let currentUrl = split_first ''?'' h
      in if js_includes ''/overlay/'' currentUrl then split_first ''/overlay/'' currentUrl
         else currentUrl)"

definition initial_data :: "string \<Rightarrow> profile" where
  "initial_data currentUrl =
     \<lparr>url = currentUrl, name = [], job_position = [], photo = [], company = [], city = [],
      website = currentUrl, email = [], phone = [], additional_info = [], company_photo = [],
      company_linkedin_url = [], birthday = []\<rparr>"

text \<open>1. The main profile header, the photo, and the fallbacks for name and city.\<close>

definition scrape_header :: "document \<Rightarrow> profile \<Rightarrow> profile" where
  "scrape_header doc d0 =
     (let d1 = (case main_section doc of
                  None \<Rightarrow> d0
                | Some (h1, loc) \<Rightarrow> d0\<lparr>name := text_or_empty h1, city := text_or_empty loc\<rparr>);
          d2 = (case aria_photo_src doc of None \<Rightarrow> d1 | Some src \<Rightarrow> d1\<lparr>photo := src\<rparr>);
          d3 = (if name d2 = [] then
                  (case new_name_text doc of None \<Rightarrow> d2 | Some t \<Rightarrow> d2\<lparr>name := trim t\<rparr>)
                else d2)
      in if city d3 = [] then
           (case contact_link_city doc of None \<Rightarrow> d3 | Some t \<Rightarrow> d3\<lparr>city := trim t\<rparr>)
         else d3)"

text \<open>2. The about section.\<close>

definition scrape_about :: "document \<Rightarrow> profile \<Rightarrow> profile" where
  "scrape_about doc d =
     (case about_text doc of None \<Rightarrow> d | Some t \<Rightarrow> d\<lparr>additional_info := trim t\<rparr>)"

text \<open>The separator before the employment type, as the source spells it.\<close>

definition interpunct :: string where
  "interpunct = [CHR 0xC2, CHR 0xB7]"

text \<open>3.A The old experience section; the flag is \<open>experienceFound\<close>.\<close>

definition scrape_old_experience :: "document \<Rightarrow> profile \<Rightarrow> bool \<times> profile" where
  "scrape_old_experience doc d =
     (case old_experience doc of
        None \<Rightarrow> (False, d)
      | Some item \<Rightarrow>
          (let d1 = d\<lparr>company_photo := attr_or_empty (oe_logo_img_src item),
                       company_linkedin_url := attr_or_empty (oe_logo_href item)\<rparr>
           in if oe_multi_role item then
                (True, d1\<lparr>company := text_or_empty (oe_multi_company item),
                          job_position := text_or_empty (oe_multi_job item)\<rparr>)
              else
                (True, d1\<lparr>job_position := text_or_empty (oe_single_job item),
                          company := (case oe_single_company item of
                                        None \<Rightarrow> []
                                      | Some t \<Rightarrow> trim (split_first interpunct t))\<rparr>)))"

text \<open>3.B The new experience section, tried when the old one found no company.\<close>

definition scrape_new_item :: "new_experience_item \<Rightarrow> profile \<Rightarrow> profile" where
  "scrape_new_item item d =
     (let d1 =
        (if ne_has_sub_items item then
           (let c1 = (case ne_top_ptags item of
                        [] \<Rightarrow> d
                      | t # ts \<Rightarrow>
                          (case ne_logo item of
                             None \<Rightarrow> d\<lparr>company := trim t\<rparr>
                           | Some (alt, src) \<Rightarrow>
                               if alt \<noteq> [] then d\<lparr>company := trim (replace_first '' logo'' [] alt)\<rparr>
                               else d\<lparr>company := trim t\<rparr>))
            in case ne_first_sub_role item of
                 None \<Rightarrow> c1
               | Some r \<Rightarrow> c1\<lparr>job_position := trim r\<rparr>)
         else
           (let j1 = (case ne_ptags item of [] \<Rightarrow> d | p0 # ps \<Rightarrow> d\<lparr>job_position := trim p0\<rparr>)
            in case ne_ptags item of
                 p0 # p1 # ps \<Rightarrow> j1\<lparr>company := trim (split_first interpunct p1)\<rparr>
               | _ \<Rightarrow> j1));
          d2 = (case ne_logo item of None \<Rightarrow> d1 | Some (alt, src) \<Rightarrow> d1\<lparr>company_photo := src\<rparr>)
      in case ne_link_href item of None \<Rightarrow> d2 | Some h \<Rightarrow> d2\<lparr>company_linkedin_url := h\<rparr>)"

definition scrape_experience :: "document \<Rightarrow> profile \<Rightarrow> profile" where
  "scrape_experience doc d =
     (case scrape_old_experience doc d of
        (experienceFound, d1) \<Rightarrow>
          if \<not> experienceFound \<or> company d1 = [] then
            (case new_experience doc of None \<Rightarrow> d1 | Some item \<Rightarrow> scrape_new_item item d1)
          else d1)"

text \<open>
  The real address of an anchor: a LinkedIn redirect link carries it in its \<open>url\<close>
  parameter.
\<close>

definition clean_link_url :: "link \<Rightarrow> string" where
  "clean_link_url l =
     (case l_hostname l of
        None \<Rightarrow> l_href l
      | Some host \<Rightarrow>
          (case l_url_param l of
             None \<Rightarrow> l_href l
           | Some u \<Rightarrow> if js_includes ''linkedin.com'' host then u else l_href l))"

text \<open>The test \<open>t.match(/^[\d\+\-\(\) ]+$/) && t.length > 5\<close> on a phone number.\<close>

definition phone_char :: "char \<Rightarrow> bool" where
  "phone_char c = (c \<in> set ''0123456789+-() '')"

definition is_phone_text :: "string \<Rightarrow> bool" where
  "is_phone_text t = (t \<noteq> [] \<and> list_all phone_char t \<and> length t > 5)"

text \<open>The external links under the link icon; links to LinkedIn profiles are left out.\<close>

fun svg_website_list :: "link list \<Rightarrow> website_entry list" where
  "svg_website_list [] = []"
| "svg_website_list (l # ls) =
     (if \<not> js_includes ''linkedin.com/in/'' (clean_link_url l)
      then \<lparr>w_url = clean_link_url l, w_desc = trim (l_text l)\<rparr> # svg_website_list ls
      else svg_website_list ls)"

text \<open>4.A The contact details found by their icons; the second component is \<open>websiteList\<close>.\<close>

definition scrape_contact_icons :: "document \<Rightarrow> profile \<Rightarrow> profile \<times> website_entry list" where
  "scrape_contact_icons doc d =
     (let d1 = (case svg_email_href doc of
                  None \<Rightarrow> d
                | Some h \<Rightarrow> d\<lparr>email := trim (replace_first ''mailto:'' [] h)\<rparr>);
          d2 = (case svg_phone_texts doc of
                  None \<Rightarrow> d1
                | Some ts \<Rightarrow>
                    (case find_first is_phone_text (map trim ts) of
                       None \<Rightarrow> d1
                     | Some n \<Rightarrow> d1\<lparr>phone := n\<rparr>));
          d3 = (case svg_birthday_texts doc of
                  None \<Rightarrow> d2
                | Some ts \<Rightarrow>
                    (case find_first (\<lambda>t. t \<noteq> ''Birthday'' \<and> length t > 0) (map trim ts) of
                       None \<Rightarrow> d2
                     | Some b \<Rightarrow> d2\<lparr>birthday := b\<rparr>))
      in (d3, case svg_links doc of None \<Rightarrow> [] | Some ls \<Rightarrow> svg_website_list ls))"

text \<open>
  4.B One section of the old contact info modal: the body of the \<open>forEach\<close>, on \<open>data\<close>
  and \<open>websiteList\<close>.
\<close>

definition modal_section ::
  "contact_section \<Rightarrow> profile \<times> website_entry list \<Rightarrow> profile \<times> website_entry list" where
  "modal_section sec st =
     (case st of (d, websiteList) \<Rightarrow>
        (let header = (case cs_header sec of None \<Rightarrow> [] | Some h \<Rightarrow> toLowerCase (trim h))
         in if header = [] then (d, websiteList)
            else if js_includes ''profile'' header then
              (case cs_a_href sec of
                 None \<Rightarrow> (d, websiteList)
               | Some profileLink \<Rightarrow>
                   if profileLink \<noteq> [] then (d\<lparr>website := profileLink, url := profileLink\<rparr>, websiteList)
                   else (d, websiteList))
            else if js_includes ''email'' header \<and> email d = [] then
              (d\<lparr>email := (case cs_a_href sec of
                              None \<Rightarrow> []
                            | Some h \<Rightarrow> replace_first ''mailto:'' [] h)\<rparr>, websiteList)
            else if js_includes ''phone'' header \<and> phone d = [] then
              (d\<lparr>phone := text_or_empty (cs_t14_span sec)\<rparr>, websiteList)
            else if js_includes ''websites'' header \<and> websiteList = [] then
              (d, websiteList @
                  map (\<lambda>l. \<lparr>w_url = clean_link_url l, w_desc = text_or_empty (l_next_text l)\<rparr>)
                    (cs_links sec))
            else if js_includes ''birthday'' header \<and> birthday d = [] then
              (d\<lparr>birthday := text_or_empty (cs_t14_span sec)\<rparr>, websiteList)
            else (d, websiteList)))"

fun modal_loop ::
  "contact_section list \<Rightarrow> profile \<times> website_entry list \<Rightarrow> profile \<times> website_entry list" where
  "modal_loop [] st = st"
| "modal_loop (sec # secs) st = modal_loop secs (modal_section sec st)"

definition scrape_modal ::
  "document \<Rightarrow> profile \<times> website_entry list \<Rightarrow> profile \<times> website_entry list" where
  "scrape_modal doc st = (case modal_sections doc of None \<Rightarrow> st | Some secs \<Rightarrow> modal_loop secs st)"

text \<open>The websites without repeated URLs: the first entry of every URL, in order.\<close>

fun uniqueWebsites :: "string list \<Rightarrow> website_entry list \<Rightarrow> website_entry list" where
  "uniqueWebsites seenUrls [] = []"
| "uniqueWebsites seenUrls (w # ws) =
     (if w_url w \<in> set seenUrls then uniqueWebsites seenUrls ws
      else w # uniqueWebsites (w_url w # seenUrls) ws)"

definition website_line :: "website_entry \<Rightarrow> string" where
  "website_line w = w_url w @ (if w_desc w \<noteq> [] then '' ('' @ w_desc w @ '')'' else [])"

text \<open>
  The array \<open>parts\<close> of the additional info: the websites, the birthday, the about text
  and the other contact details, each pushed when it is there.
\<close>

definition additional_info_parts ::
  "website_entry list \<Rightarrow> string \<Rightarrow> string \<Rightarrow> string list \<Rightarrow> string list" where
  "additional_info_parts websiteList bday about extraContactInfo =
     (let parts0 = [];
          parts1 = (if length websiteList > 0
                    then parts0 @ [''Websites:''] @ map website_line (uniqueWebsites [] websiteList) @ [[]]
                    else parts0);
          parts2 = (if bday \<noteq> [] then parts1 @ [''Birthday: '' @ bday] @ [[]] else parts1);
          parts3 = (if about \<noteq> [] then parts2 @ [''About:''] @ [about] @ [[]] else parts2)
      in if length extraContactInfo > 0
         then parts3 @ [''Other Info:''] @ [join newline extraContactInfo]
         else parts3)"

definition format_additional_info :: "website_entry list \<Rightarrow> string \<Rightarrow> string \<Rightarrow> string" where
  "format_additional_info websiteList bday about =
     trim (join newline (additional_info_parts websiteList bday about []))"

text \<open>
  \<open>scrapeLinkedInProfile\<close>. An exception of a DOM read inside the \<open>try\<close> block is thrown
  again as \<open>Scraping failed\<close>; \<open>extraContactInfo\<close> is never filled.
\<close>

definition scrapeLinkedInProfile :: "document \<Rightarrow> js_error + profile" where
  "scrapeLinkedInProfile doc =
     (let data = initial_data (clean_current_url (href doc))
      in case dom_exception doc of
           Some m \<Rightarrow> Inl (Error (''Scraping failed: '' @ m))
         | None \<Rightarrow>
             (case scrape_modal doc
                     (scrape_contact_icons doc
                        (scrape_experience doc (scrape_about doc (scrape_header doc data)))) of
                (d, websiteList) \<Rightarrow>
                  Inr (d\<lparr>additional_info :=
                            format_additional_info websiteList (birthday d) (additional_info d),
                          name := trim (split_first newline (name d))\<rparr>)))"

text \<open>
  The merge of the main pass \<open>data\<close> with the overlay pass \<open>contactData\<close> in
  \<open>scrapeProfileAndContactInfo\<close>.
\<close>

definition merge_contact_data :: "profile \<Rightarrow> profile \<Rightarrow> profile" where
  "merge_contact_data data contactData =
     (let d1 = (if website contactData \<noteq> [] \<and> website contactData \<noteq> website data
                then data\<lparr>website := website contactData, url := website contactData\<rparr>
                else data);
          d2 = d1\<lparr>email := or_else (email contactData) (email d1)\<rparr>;
          d3 = d2\<lparr>phone := or_else (phone contactData) (phone d2)\<rparr>;
          d4 = d3\<lparr>birthday := or_else (birthday contactData) (birthday d3)\<rparr>
      in if additional_info contactData \<noteq> []
            \<and> length (additional_info contactData) > length (additional_info d4)
         then d4\<lparr>additional_info := additional_info contactData\<rparr>
         else d4)"

text \<open>
  The page as \<open>scrapeProfileAndContactInfo\<close> sees it: the document of the first pass,
  whether a contact info link is found, and the document of the second pass, after the click
  and the bounded wait for the overlay.
\<close>

record page =
  main_doc :: document
  contact_link :: bool
  overlay_doc :: document

definition scrapeProfileAndContactInfo :: "page \<Rightarrow> js_error + profile" where
  "scrapeProfileAndContactInfo pg =
     (case scrapeLinkedInProfile (main_doc pg) of
        Inl e \<Rightarrow> Inl e
      | Inr data \<Rightarrow>
          if contact_link pg then
            (case scrapeLinkedInProfile (overlay_doc pg) of
               Inl e \<Rightarrow> Inl e
             | Inr contactData \<Rightarrow> Inr (merge_contact_data data contactData))
          else Inr data)"

text \<open>
  The older copy of the content script (\<open>content.js\<close>) merges differently: it has no birthday,
  no test against the main website, and it appends the overlay text to the main text.
\<close>

definition merge_contact_data_old :: "profile \<Rightarrow> profile \<Rightarrow> profile" where
  "merge_contact_data_old data contactData =
     (let d1 = data\<lparr>website := or_else (website contactData) (website data)\<rparr>;
          d2 = d1\<lparr>email := or_else (email contactData) (email d1)\<rparr>;
          d3 = d2\<lparr>phone := or_else (phone contactData) (phone d2)\<rparr>;
          combinedInfo = additional_info d3;
          combinedInfo' = (if additional_info contactData \<noteq> []
                              \<and> combinedInfo \<noteq> additional_info contactData
                           then combinedInfo @ newline @ newline @ additional_info contactData
                           else combinedInfo)
      in d3\<lparr>additional_info := trim combinedInfo'\<rparr>)"

text \<open>
  The older copy composes the additional info differently too (\<open>content.js\<close>, lines 102 and
  112 to 115): an entry of its website list is the address of the anchor and the text of its
  next sibling, no entry is left out, and the text is the about text, then the website list,
  then the other contact details.
\<close>

definition old_website_list :: "link list \<Rightarrow> string list" where
  "old_website_list ls = map (\<lambda>l. l_href l @ '' '' @ text_or_empty (l_next_text l)) ls"

definition compose_additional_info_old :: "string \<Rightarrow> string list \<Rightarrow> string list \<Rightarrow> string" where
  "compose_additional_info_old about websiteList extraContactInfo =
     (let info0 = (if about \<noteq> [] then about @ newline @ newline else []);
          info1 = (if length websiteList > 0
                   then info0 @ ''Websites:'' @ newline @ join newline websiteList @ newline
                   else info0)
      in trim (info1 @ join newline extraContactInfo))"

section \<open>Campaigns\<close>

text \<open>A campaign as \<open>GET /campaigns\<close> returns it; a tag list may be missing.\<close>

record campaign =
  c_id :: string
  c_name :: string
  person_tags :: "string list option"
  company_tags :: "string list option"

text \<open>\<open>campaign.person_tags || []\<close>.\<close>

definition tags_or_empty :: "string list option \<Rightarrow> string list" where
  "tags_or_empty ts = (case ts of None \<Rightarrow> [] | Some l \<Rightarrow> l)"

text \<open>
  \<open>campaigns.find(c => c.id == campaignId)\<close>: identifiers are strings, so no campaign
  equals \<open>null\<close>.
\<close>

definition find_campaign :: "campaign list \<Rightarrow> string option \<Rightarrow> campaign option" where
  "find_campaign cs campaignId =
     (case campaignId of None \<Rightarrow> None | Some i \<Rightarrow> find_first (\<lambda>c. c_id c = i) cs)"

section \<open>The floating button of the content script\<close>

record credentials =
  backend_url :: string
  odoo_server :: string
  odoo_db_name :: string
  username :: string
  api_token :: string

text \<open>The outcome of \<open>fetch\<close>: it throws, or it answers with \<open>ok\<close>, a status and a body;
  the body is the value of \<open>res.json()\<close>, or the message of the exception it throws.\<close>

datatype 'a fetch_result = NetworkError string | Response bool nat "string + 'a"

record request =
  req_url :: string
  req_body :: "(string \<times> string) list"

datatype level = Log | Warn | Err

datatype label = ChoosePerson | Processing | UpdateContact | CreateContact | SetupCredentials

text \<open>The body of \<open>/check_contact\<close>.\<close>

record check_reply =
  chk_exists :: bool
  chk_id :: "string option"
  chk_detail :: "string option"

text \<open>The body of \<open>/create_contact\<close> as the content script reads it.\<close>

record create_reply =
  cr_person_id :: "string option"
  cr_detail :: "string option"

text \<open>
  The globals of the content script and what it does to the world: the button, the toast (its
  text without the leading pictograph, and \<open>isError\<close>), the console, the requests sent,
  and whether a reload is scheduled. The button and the toast are injected together before
  any handler runs.
\<close>

record content_state =
  odooCredentials :: credentials
  contactExists :: bool
  contactId :: "string option"
  button_label :: label
  button_disabled :: bool
  toast :: "(string \<times> bool) option"
  console :: "(level \<times> string) list"
  requests :: "request list"
  reload_scheduled :: bool

definition showToast :: "string \<Rightarrow> bool \<Rightarrow> content_state \<Rightarrow> content_state" where
  "showToast msg isError st = st\<lparr>toast := Some (msg, isError)\<rparr>"

definition console_write :: "level \<Rightarrow> string \<Rightarrow> content_state \<Rightarrow> content_state" where
  "console_write lv msg st = st\<lparr>console := console st @ [(lv, msg)]\<rparr>"

definition send :: "string \<Rightarrow> (string \<times> string) list \<Rightarrow> content_state \<Rightarrow> content_state" where
  "send u body st = st\<lparr>requests := requests st @ [\<lparr>req_url = u, req_body = body\<rparr>]\<rparr>"

definition updateButtonState :: "string \<Rightarrow> content_state \<Rightarrow> content_state" where
  "updateButtonState location st =
     (if js_includes ''linkedin.com/in/'' location then
        st\<lparr>button_label := (if contactExists st then UpdateContact else CreateContact),
           button_disabled := False\<rparr>
      else st\<lparr>button_label := ChoosePerson, button_disabled := True\<rparr>)"

text \<open>\<open>s.replace(/\/+$/, '')\<close>.\<close>

definition strip_trailing_slashes :: "string \<Rightarrow> string" where
  "strip_trailing_slashes s = rev (dropWhile (\<lambda>c. c = CHR ''/'') (rev s))"

definition credentials_body :: "credentials \<Rightarrow> (string \<times> string) list" where
  "credentials_body c =
     [(''odoo_server'', odoo_server c), (''odoo_db_name'', odoo_db_name c),
      (''username'', username c), (''api_token'', api_token c),
      (''backend_url'', backend_url c)]"

text \<open>What \<open>checkContactStatus\<close> reads: the URL, the two name elements, and the answer.\<close>

record check_env =
  ce_location :: string
  ce_h1_text :: "string option"
  ce_badge_text :: "string option"
  ce_fetch :: "check_reply fetch_result"

definition page_name :: "check_env \<Rightarrow> string" where
  "page_name env =
     or_else (case ce_h1_text env of
                None \<Rightarrow> []
              | Some t \<Rightarrow> trim (split_first newline (trim t)))
             (case ce_badge_text env of None \<Rightarrow> [] | Some t \<Rightarrow> trim t)"

text \<open>The \<open>try\<close> block of \<open>checkContactStatus\<close>, with both \<open>catch\<close> clauses.\<close>

definition check_request :: "check_env \<Rightarrow> content_state \<Rightarrow> content_state" where
  "check_request env st =
     (let backendUrl = strip_trailing_slashes (backend_url (odooCredentials st));
          st1 = send (backendUrl @ ''/check_contact'')
                  (credentials_body (odooCredentials st) @ [(''name'', page_name env)]) st
      in case ce_fetch env of
           NetworkError m \<Rightarrow>
             (console_write Err (''Could not check contact status (Fetch Error): '' @ m) st1)
               \<lparr>contactExists := False\<rparr>
         | Response ok status body \<Rightarrow>
             if \<not> ok then
               (case body of
                  Inr errorData \<Rightarrow>
                    console_write Err
                      (''Check Contact Error Response: '' @
                         (case chk_detail errorData of
                            None \<Rightarrow> ''Status '' @ show_nat status
                          | Some d \<Rightarrow> or_else d (''Status '' @ show_nat status)))
                      (st1\<lparr>contactExists := False\<rparr>)
                | Inl m \<Rightarrow>
                    console_write Err (''Check Contact Error: Status '' @ show_nat status)
                      (st1\<lparr>contactExists := False\<rparr>))
             else
               (case body of
                  Inr data \<Rightarrow> st1\<lparr>contactExists := chk_exists data, contactId := chk_id data\<rparr>
                | Inl m \<Rightarrow>
                    (console_write Err (''Could not check contact status (Fetch Error): '' @ m) st1)
                      \<lparr>contactExists := False\<rparr>))"

definition checkContactStatus :: "check_env \<Rightarrow> content_state \<Rightarrow> content_state" where
  "checkContactStatus env st =
     (if api_token (odooCredentials st) = [] \<or> backend_url (odooCredentials st) = [] then
        st\<lparr>button_label := SetupCredentials, button_disabled := True\<rparr>
      else if \<not> js_includes ''linkedin.com/in/'' (ce_location env) then
        updateButtonState (ce_location env) st
      else if page_name env = [] then updateButtonState (ce_location env) st
      else updateButtonState (ce_location env) (check_request env st))"

text \<open>
  What \<open>handleFloatingButtonClick\<close> reads: the local storage, the page during the two
  passes of the scrape, the address that \<open>location.href\<close> holds when the \<open>finally\<close>
  clause reads it again, after the overlay is closed, and the answers of the two requests.
\<close>

record click_env =
  stored_credentials :: credentials
  stored_campaign_id :: "string option"
  location :: string
  profile_page :: page
  campaigns_fetch :: "campaign list fetch_result"
  create_fetch :: "create_reply fetch_result"

text \<open>The campaign tags of the payload: the declared tags, then the campaign name.\<close>

definition campaign_tag_lists :: "campaign list \<Rightarrow> string option \<Rightarrow> string list \<times> string list" where
  "campaign_tag_lists campaigns currentCampaignId =
     (if truthy currentCampaignId \<and> length campaigns > 0 then
        (case find_campaign campaigns currentCampaignId of
           None \<Rightarrow> ([], [])
         | Some c \<Rightarrow>
             if c_name c \<noteq> [] then
               (tags_or_empty (person_tags c) @ [c_name c], tags_or_empty (company_tags c) @ [c_name c])
             else (tags_or_empty (person_tags c), tags_or_empty (company_tags c)))
      else ([], []))"

definition profile_body :: "profile \<Rightarrow> (string \<times> string) list" where
  "profile_body d =
     [(''url'', url d), (''name'', name d), (''job_position'', job_position d),
      (''photo'', photo d), (''company'', company d), (''city'', city d),
      (''website'', website d), (''email'', email d), (''phone'', phone d),
      (''additional_info'', additional_info d), (''company_photo'', company_photo d),
      (''company_linkedin_url'', company_linkedin_url d), (''birthday'', birthday d)]"

definition click_payload ::
  "profile \<Rightarrow> credentials \<Rightarrow> string list \<times> string list \<Rightarrow> (string \<times> string) list" where
  "click_payload profileData creds campaignTags =
     profile_body profileData @ credentials_body creds @
     [(''contact_type'', ''individual''),
      (''tags'', join '','' (unique [] (fst campaignTags))),
      (''company_tags'', join '','' (unique [] (snd campaignTags)))]"

text \<open>Step 2 of the handler: the campaigns; a failure is ignored with a warning.\<close>

definition load_campaigns :: "string \<Rightarrow> click_env \<Rightarrow> content_state \<Rightarrow> campaign list \<times> content_state" where
  "load_campaigns backendUrl env st =
     (let st1 = console_write Log (''Fetching campaigns from: '' @ backendUrl @ ''/campaigns'') st;
          st2 = send (backendUrl @ ''/campaigns'') [] st1
      in case campaigns_fetch env of
           NetworkError m \<Rightarrow> ([], console_write Warn (''Could not load campaigns (ignoring): '' @ m) st2)
         | Response ok status body \<Rightarrow>
             if ok then
               (case body of
                  Inr cs \<Rightarrow> (cs, st2)
                | Inl m \<Rightarrow> ([], console_write Warn (''Could not load campaigns (ignoring): '' @ m) st2))
             else ([], st2))"

text \<open>
  Steps 3 to 5: the payload, the request, and the answer. The result is the exception
  thrown, if any, with the state reached.
\<close>

definition create_contact ::
  "string \<Rightarrow> profile \<Rightarrow> campaign list \<Rightarrow> click_env \<Rightarrow> content_state
     \<Rightarrow> js_error option \<times> content_state" where
  "create_contact backendUrl profileData campaigns env st =
     (let campaignTags = campaign_tag_lists campaigns (stored_campaign_id env);
          payload = click_payload profileData (odooCredentials st) campaignTags;
          st1 = console_write Log (''Sending contact to: '' @ backendUrl @ ''/create_contact'') st;
          st2 = send (backendUrl @ ''/create_contact'') payload st1
      in case create_fetch env of
           NetworkError m \<Rightarrow> (Some (Error m), st2)
         | Response ok status body \<Rightarrow>
             if \<not> ok then
               (let errorDetail = ''Request failed ('' @ show_nat status @ '')''
                in case body of
                     Inr errorData \<Rightarrow>
                       (Some (Error (case cr_detail errorData of
                                       None \<Rightarrow> errorDetail
                                     | Some d \<Rightarrow> or_else d errorDetail)), st2)
                   | Inl m \<Rightarrow> (Some (Error errorDetail), st2))
             else
               (case body of
                  Inl m \<Rightarrow> (Some (Error m), st2)
                | Inr data \<Rightarrow>
                    if truthy (cr_detail data) then (Some (Error (the (cr_detail data))), st2)
                    else
                      (let stateText = (if contactExists st2 then ''Updated'' else ''Created'');
                           st3 = showToast (stateText @ '': '' @ name profileData) False st2
                       in (None, st3\<lparr>contactExists := True, contactId := cr_person_id data\<rparr>))))"

text \<open>
  What a failing scrape writes to the console before the handler sees the exception:
  \<open>scrapeLinkedInProfile\<close> logs the exception of the DOM read, then
  \<open>scrapeProfileAndContactInfo\<close> logs the exception thrown again. The pass that fails is
  the first pass, or the second one when there is a contact info link.
\<close>

definition scrape_failure_entries :: "string \<Rightarrow> (level \<times> string) list" where
  "scrape_failure_entries m =
     [(Err, ''LinkedIn Scraper Error: '' @ m),
      (Err, ''Scrape Orchestration Error: '' @ ''Scraping failed: '' @ m)]"

definition scraper_console :: "page \<Rightarrow> (level \<times> string) list" where
  "scraper_console pg =
     (case dom_exception (main_doc pg) of
        Some m \<Rightarrow> scrape_failure_entries m
      | None \<Rightarrow>
          if contact_link pg then
            (case dom_exception (overlay_doc pg) of
               Some m \<Rightarrow> scrape_failure_entries m
             | None \<Rightarrow> [])
          else [])"

text \<open>The \<open>try\<close> block of \<open>handleFloatingButtonClick\<close>.\<close>

definition click_try :: "click_env \<Rightarrow> content_state \<Rightarrow> js_error option \<times> content_state" where
  "click_try env st =
     (let st1 = st\<lparr>odooCredentials := stored_credentials env\<rparr>
      in if backend_url (odooCredentials st1) = [] then
           (Some (Error ''Backend URL is missing in Options.''), st1)
         else
           (let backendUrl = strip_trailing_slashes (backend_url (odooCredentials st1))
            in case scrapeProfileAndContactInfo (profile_page env) of
                 Inl e \<Rightarrow>
                   (Some e, st1\<lparr>console := console st1 @ scraper_console (profile_page env)\<rparr>)
               | Inr profileData \<Rightarrow>
                   if isProfileDataEmpty (Some profileData) then
                     (None, (showToast ''Error: Empty contact. Please reload page.'' True st1)
                              \<lparr>reload_scheduled := True\<rparr>)
                   else
                     (case load_campaigns backendUrl env st1 of
                        (campaigns, st2) \<Rightarrow> create_contact backendUrl profileData campaigns env st2)))"

text \<open>The \<open>catch\<close> clause: the message shown for an exception.\<close>

definition error_message :: "string \<Rightarrow> string" where
  "error_message errorMsg =
     (if js_includes ''Odoo Error:'' errorMsg then ''Odoo Error''
      else if js_includes ''Failed to fetch'' errorMsg \<or> js_includes ''NetworkError'' errorMsg
        then ''Connection Error (Check Backend URL or Mixed Content blocking)''
      else if js_includes ''Request failed'' errorMsg then ''Backend Error''
      else if js_includes ''Scraping failed'' errorMsg then ''Scraping Error''
      else errorMsg)"

definition click_catch :: "js_error option \<times> content_state \<Rightarrow> content_state" where
  "click_catch r =
     (case r of
        (None, st) \<Rightarrow> st
      | (Some e, st) \<Rightarrow>
          showToast (''Error: '' @ error_message (message e)) True
            (console_write Err (''Error handling button click: '' @ message e) st))"

definition handleFloatingButtonClick :: "click_env \<Rightarrow> content_state \<Rightarrow> content_state" where
  "handleFloatingButtonClick env st =
     (let st1 = st\<lparr>button_label := Processing, button_disabled := True\<rparr>;
          st2 = click_catch (click_try env st1);
          st3 = updateButtonState (location env) st2
      in st3\<lparr>button_disabled := \<not> js_includes ''linkedin.com/in/'' (location env)\<rparr>)"

text \<open>
  A failed remote call, in the words of the specification: a network exception, a response
  that is not ok, or a response with an error detail (a body that cannot be read counts as
  failed too).
\<close>

fun remote_call_failed :: "create_reply fetch_result \<Rightarrow> bool" where
  "remote_call_failed (NetworkError m) = True"
| "remote_call_failed (Response ok status body) =
     (\<not> ok \<or> (case body of Inl m \<Rightarrow> True | Inr data \<Rightarrow> truthy (cr_detail data)))"

section \<open>The popup\<close>

text \<open>The hidden inputs of the popup that hold the connection settings.\<close>

record hidden_inputs =
  h_odoo_server :: string
  h_odoo_db_name :: string
  h_username :: string
  h_access_token :: string
  h_backend_url :: string

text \<open>What \<open>saveState\<close> stores under the URL of the profile.\<close>

record saved_data =
  sd_fields :: "(string \<times> string) list"
  sd_personTags :: "string list"
  sd_companyTags :: "string list"
  sd_personInfoItems :: "string list"
  sd_companyInfoItems :: "string list"

text \<open>
  The globals of the popup, its form (the value of the input with a given id, \<open>None\<close> when
  there is no such element), the status bar (message and type), the session storage, the
  \<open>currentCampaignId\<close> of the local storage, the console and the requests sent.
\<close>

record popup_state =
  BACKEND_URL :: string
  currentTabUrl :: string
  personTags :: "string list"
  companyTags :: "string list"
  personInfoItems :: "string list"
  companyInfoItems :: "string list"
  allCampaigns :: "campaign list"
  currentCampaignId :: "string option"
  lastScrapedCompany :: string
  form :: "string \<Rightarrow> string option"
  hidden :: hidden_inputs
  upload_disabled :: bool
  result :: "(string \<times> string) option"
  session :: "string \<Rightarrow> saved_data option"
  local_currentCampaignId :: "string option"
  popup_console :: "(level \<times> string) list"
  popup_requests :: "request list"

definition formFields :: "string list" where
  "formFields =
     [''name'', ''company'', ''job_position'', ''email'', ''phone'', ''website'', ''city'',
      ''photo'', ''company_photo'', ''company_linkedin_url'']"

text \<open>\<open>updateResult\<close>; a leading pictograph of a message is left out.\<close>

definition updateResult :: "string \<Rightarrow> string \<Rightarrow> popup_state \<Rightarrow> popup_state" where
  "updateResult msg type st = st\<lparr>result := Some (msg, type)\<rparr>"

text \<open>The loop of \<open>saveState\<close> over the form fields: \<open>if (el) dataToSave[id] = el.value || ''\<close>.\<close>

fun save_fields :: "(string \<Rightarrow> string option) \<Rightarrow> string list \<Rightarrow> (string \<times> string) list" where
  "save_fields f [] = []"
| "save_fields f (i # ids) =
     (case f i of None \<Rightarrow> save_fields f ids | Some v \<Rightarrow> (i, v) # save_fields f ids)"

definition saveState :: "popup_state \<Rightarrow> popup_state" where
  "saveState st =
     (if currentTabUrl st = [] then st
      else if \<not> js_includes ''linkedin.com/in/'' (currentTabUrl st) then
        st\<lparr>session := (session st)(currentTabUrl st := None)\<rparr>
      else
        st\<lparr>session := (session st)(currentTabUrl st \<mapsto>
              \<lparr>sd_fields = save_fields (form st) formFields,
               sd_personTags = personTags st,
               sd_companyTags = companyTags st,
               sd_personInfoItems = personInfoItems st,
               sd_companyInfoItems = companyInfoItems st\<rparr>)\<rparr>)"

text \<open>\<open>tags.forEach(tag => { if (!arr.includes(tag)) arr.push(tag); })\<close>.\<close>

fun push_missing :: "string list \<Rightarrow> string list \<Rightarrow> string list" where
  "push_missing [] arr = arr"
| "push_missing (tag # tags) arr =
     push_missing tags (if tag \<in> set arr then arr else arr @ [tag])"

text \<open>\<open>if (campaign.name && !arr.includes(campaign.name)) arr.push(campaign.name)\<close>.\<close>

definition push_name :: "string \<Rightarrow> string list \<Rightarrow> string list" where
  "push_name n arr = (if n \<noteq> [] \<and> n \<notin> set arr then arr @ [n] else arr)"

definition applyCampaignTags :: "string option \<Rightarrow> bool \<Rightarrow> popup_state \<Rightarrow> popup_state" where
  "applyCampaignTags campaignId forceApplyCompany st =
     (let st1 =
        (case find_campaign (allCampaigns st) campaignId of
           None \<Rightarrow> st
         | Some c \<Rightarrow>
             (let s1 = st\<lparr>personTags :=
                          push_name (c_name c) (push_missing (tags_or_empty (person_tags c)) (personTags st))\<rparr>
              in if forceApplyCompany then
                   s1\<lparr>companyTags :=
                        push_name (c_name c)
                          (push_missing (tags_or_empty (company_tags c)) (companyTags s1))\<rparr>
                 else s1))
      in saveState st1)"

text \<open>
  The removal loop \<open>for (let i = arr.length - 1; i >= 0; i--) if (toRemove.has(arr[i]))
  arr.splice(i, 1)\<close>; the second argument is \<open>i + 1\<close>.
\<close>

fun splice_loop :: "string list \<Rightarrow> nat \<Rightarrow> string list \<Rightarrow> string list" where
  "splice_loop toRemove 0 arr = arr"
| "splice_loop toRemove (Suc i) arr =
     splice_loop toRemove i
       (if arr ! i \<in> set toRemove then take i arr @ drop (Suc i) arr else arr)"

text \<open>The removal set of a campaign: its declared tags, and its name when it has one.\<close>

definition tags_to_remove :: "string list option \<Rightarrow> string \<Rightarrow> string list" where
  "tags_to_remove declared n = tags_or_empty declared @ (if n \<noteq> [] then [n] else [])"

definition handleCampaignChange :: "string \<Rightarrow> popup_state \<Rightarrow> popup_state" where
  "handleCampaignChange newCampaignId st =
     (let st1 =
        (case find_campaign (allCampaigns st) (currentCampaignId st) of
           None \<Rightarrow> st
         | Some oldCampaign \<Rightarrow>
             st\<lparr>personTags :=
                  splice_loop (tags_to_remove (person_tags oldCampaign) (c_name oldCampaign))
                    (length (personTags st)) (personTags st),
                companyTags :=
                  splice_loop (tags_to_remove (company_tags oldCampaign) (c_name oldCampaign))
                    (length (companyTags st)) (companyTags st)\<rparr>);
          newId = (if newCampaignId \<noteq> [] then Some newCampaignId else None);
          st2 = st1\<lparr>currentCampaignId := newId, local_currentCampaignId := newId\<rparr>
      in applyCampaignTags (currentCampaignId st2) True st2)"

text \<open>\<open>checkCredentials\<close>: the state it leaves and the value it returns.\<close>

definition checkCredentials :: "popup_state \<Rightarrow> popup_state \<times> bool" where
  "checkCredentials st =
     (let h = hidden st;
          isReady = list_all (\<lambda>v. v \<noteq> [])
                      [h_odoo_server h, h_odoo_db_name h, h_username h, h_access_token h,
                       h_backend_url h];
          onProfilePage = js_includes ''linkedin.com/in/'' (currentTabUrl st);
          st1 = st\<lparr>upload_disabled := (\<not> isReady \<or> \<not> onProfilePage)\<rparr>;
          st2 = (if \<not> isReady then
                   updateResult ''Missing credentials or Backend URL in settings.'' ''error'' st1
                 else if \<not> onProfilePage then updateResult ''Navigate to a LinkedIn Profile.'' ''info'' st1
                 else st1)
      in (st2, isReady))"

text \<open>
  The payload built from the form:
  \<open>payload[id] = document.getElementById(id)?.value.trim() || null\<close>.
\<close>

definition form_payload :: "popup_state \<Rightarrow> string \<Rightarrow> string option" where
  "form_payload st i =
     (if i \<in> set formFields then
        (case form st i of None \<Rightarrow> None | Some v \<Rightarrow> if trim v \<noteq> [] then Some (trim v) else None)
      else None)"

text \<open>The \<open>detail\<close> of an error body: a text, or the list of validation errors of a 422.\<close>

datatype detail = DetailText string | DetailItems "(string \<times> string list) list"

text \<open>The body of \<open>/create_contact\<close> as the popup reads it.\<close>

record upload_reply =
  up_person_id :: string
  up_company_id :: "string option"
  up_detail :: "detail option"

text \<open>\<open>data.detail\<close> as a condition, and in a template string.\<close>

fun detail_truthy :: "detail option \<Rightarrow> bool" where
  "detail_truthy None = False"
| "detail_truthy (Some (DetailText t)) = (t \<noteq> [])"
| "detail_truthy (Some (DetailItems items)) = True"

fun detail_text :: "detail \<Rightarrow> string" where
  "detail_text (DetailText t) = t"
| "detail_text (DetailItems items) = join '','' (map (\<lambda>i. ''[object Object]'') items)"

text \<open>
  The message of a 422: \<open>data.detail[0].msg + " in " + data.detail[0].loc.join(' -> ')\<close>,
  which throws unless the detail is a list that is not empty.
\<close>

fun validation_message :: "detail option \<Rightarrow> string option" where
  "validation_message (Some (DetailItems ((msg, loc) # items))) = Some (msg @ '' in '' @ join '' -> '' loc)"
| "validation_message (Some (DetailItems [])) = None"
| "validation_message (Some (DetailText t)) = (if t \<noteq> [] then None else Some ''No detail.'')"
| "validation_message None = Some ''No detail.''"

text \<open>The payload of the upload as it is sent; a \<open>null\<close> field is written \<open>null\<close>.\<close>

definition upload_body :: "popup_state \<Rightarrow> (string \<times> string) list" where
  "upload_body st =
     map (\<lambda>i. (i, case form_payload st i of None \<Rightarrow> ''null'' | Some v \<Rightarrow> v)) formFields @
     [(''tags'', join '','' (unique [] (personTags st))),
      (''company_tags'', join '','' (unique [] (companyTags st))),
      (''additional_info'', join newline (personInfoItems st)),
      (''company_additional_info'', join newline (companyInfoItems st)),
      (''odoo_server'', h_odoo_server (hidden st)),
      (''odoo_db_name'', h_odoo_db_name (hidden st)),
      (''username'', h_username (hidden st)),
      (''api_token'', h_access_token (hidden st)),
      (''contact_type'', ''individual'')]"

definition upload_failed :: "string \<Rightarrow> popup_state \<Rightarrow> popup_state" where
  "upload_failed m st =
     updateResult ''Error: Backend not reachable.'' ''error''
       (st\<lparr>popup_console := popup_console st @ [(Err, ''Upload error: '' @ m)]\<rparr>)"

text \<open>The \<open>try\<close> block of \<open>handleUpload\<close> with its \<open>catch\<close> clause.\<close>

definition upload_request :: "upload_reply fetch_result \<Rightarrow> popup_state \<Rightarrow> popup_state" where
  "upload_request answer st =
     (let st1 = st\<lparr>BACKEND_URL := h_backend_url (hidden st)\<rparr>
      in if BACKEND_URL st1 = [] then upload_failed ''Backend URL not set.'' st1
         else
           (let st2 = st1\<lparr>popup_requests := popup_requests st1 @
                          [\<lparr>req_url = BACKEND_URL st1 @ ''/create_contact'',
                            req_body = upload_body st1\<rparr>]\<rparr>
            in case answer of
                 NetworkError m \<Rightarrow> upload_failed m st2
               | Response ok status body \<Rightarrow>
                   (case body of
                      Inl m \<Rightarrow> upload_failed m st2
                    | Inr data \<Rightarrow>
                        if ok then
                          (updateResult
                             (''Success! Person: '' @ up_person_id data @ '', Co: '' @
                                (case up_company_id data of None \<Rightarrow> ''N/A'' | Some c \<Rightarrow> or_else c ''N/A''))
                             ''success'' st2)
                            \<lparr>session := (session st2)(currentTabUrl st2 := None)\<rparr>
                        else if status = 422 then
                          (case validation_message (up_detail data) of
                             None \<Rightarrow> upload_failed ''Cannot read properties of undefined'' st2
                           | Some m \<Rightarrow> updateResult (''Error 422: '' @ m) ''error'' st2)
                        else
                          updateResult
                            (''Error ('' @ show_nat status @ ''): '' @
                               (if detail_truthy (up_detail data) then detail_text (the (up_detail data))
                                else ''Unknown error''))
                            ''error'' st2)))"

definition handleUpload :: "upload_reply fetch_result \<Rightarrow> popup_state \<Rightarrow> popup_state" where
  "handleUpload answer st =
     (case checkCredentials st of
        (st1, isReady) \<Rightarrow>
          if \<not> isReady then st1
          else if isPayloadDataEmpty (Some (form_payload st1)) then
            updateResult ''Error: Cannot create an empty contact.'' ''error'' st1
          else upload_request answer (updateResult ''Sending...'' ''pending'' st1))"

text \<open>
  An upload succeeded, in the words of the specification: \<open>/create_contact\<close> was reached and
  answered with \<open>ok\<close> and a body that can be read.
\<close>

fun upload_answer_ok :: "upload_reply fetch_result \<Rightarrow> bool" where
  "upload_answer_ok (NetworkError m) = False"
| "upload_answer_ok (Response ok status body) = (ok \<and> (case body of Inl m \<Rightarrow> False | Inr data \<Rightarrow> True))"

text \<open>
  The tags a campaign produces, in the words of the specification: its declared tags and its
  name. No campaign produces no tag.
\<close>

fun produced_tags :: "(campaign \<Rightarrow> string list option) \<Rightarrow> campaign option \<Rightarrow> string set" where
  "produced_tags declared None = {}"
| "produced_tags declared (Some c) = set (tags_or_empty (declared c)) \<union> {c_name c}"

text \<open>A failed identity check, in the words of the specification: the request throws, or the
  response is not ok.\<close>

fun check_failed :: "check_reply fetch_result \<Rightarrow> bool" where
  "check_failed (NetworkError m) = True"
| "check_failed (Response ok status body) = (\<not> ok)"

text \<open>A text that is not empty and does not end in white space.\<close>

definition ends_clean :: "string \<Rightarrow> bool" where
  "ends_clean s = (s \<noteq> [] \<and> \<not> is_space (last s))"

text \<open>The birthday and the about text of a record carry no white space around them.\<close>

definition trimmed_texts :: "profile \<Rightarrow> bool" where
  "trimmed_texts d = (trim (birthday d) = birthday d \<and> trim (additional_info d) = additional_info d)"

text \<open>
  The record and the website list of \<open>scrapeLinkedInProfile\<close> before the additional info is
  composed.
\<close>

definition scraped_fields :: "document \<Rightarrow> profile \<times> website_entry list" where
  "scraped_fields doc =
     scrape_modal doc
       (scrape_contact_icons doc
          (scrape_experience doc
             (scrape_about doc
                (scrape_header doc (initial_data (clean_current_url (href doc)))))))"

section \<open>Example inputs\<close>

text \<open>A profile with nothing but its address, and one with nothing but a photo.\<close>

definition website_only_profile :: profile where
  "website_only_profile =
     empty_profile\<lparr>url := ''https://www.linkedin.com/in/a'',
                     website := ''https://www.linkedin.com/in/a''\<rparr>"

definition photo_only_profile :: profile where
  "photo_only_profile =
     empty_profile\<lparr>url := ''https://www.linkedin.com/in/a'', photo := ''https://media/p.png''\<rparr>"

text \<open>The two passes of the merge example of the specification.\<close>

definition main_pass_example :: profile where
  "main_pass_example = empty_profile\<lparr>url := ''https://x/in/a'', website := ''https://x/in/a''\<rparr>"

definition overlay_pass_example :: profile where
  "overlay_pass_example =
     empty_profile\<lparr>url := ''https://x/in/a/clean'', website := ''https://x/in/a/clean'',
                     email := ''e@x.com''\<rparr>"

text \<open>The two campaigns and the popup of the campaign switch example of the specification.\<close>

definition campaign_Q4 :: campaign where
  "campaign_Q4 = \<lparr>c_id = ''1'', c_name = ''Q4'', person_tags = Some [''Lead''], company_tags = Some []\<rparr>"

definition campaign_Q1 :: campaign where
  "campaign_Q1 = \<lparr>c_id = ''2'', c_name = ''Q1'', person_tags = Some [''Hot''], company_tags = None\<rparr>"

definition example_popup :: popup_state where
  "example_popup =
     \<lparr>BACKEND_URL = ''http://localhost:8000'',
      currentTabUrl = ''https://www.linkedin.com/in/a'',
      personTags = [''Manual'', ''Lead'', ''Q4''],
      companyTags = [''Q4''],
      personInfoItems = [],
      companyInfoItems = [],
      allCampaigns = [campaign_Q4, campaign_Q1],
      currentCampaignId = Some ''1'',
      lastScrapedCompany = [],
      form = (\<lambda>i. if i = ''name'' then Some ''Ann'' else if i \<in> set formFields then Some [] else None),
      hidden = \<lparr>h_odoo_server = ''https://odoo.example'', h_odoo_db_name = ''db'',
                h_username = ''u'', h_access_token = ''t'',
                h_backend_url = ''http://localhost:8000''\<rparr>,
      upload_disabled = False,
      result = None,
      session = Map.empty(''https://www.linkedin.com/in/a'' \<mapsto>
                  \<lparr>sd_fields = [], sd_personTags = [''Manual''], sd_companyTags = [],
                   sd_personInfoItems = [], sd_companyInfoItems = []\<rparr>),
      local_currentCampaignId = Some ''1'',
      popup_console = [],
      popup_requests = []\<rparr>"

text \<open>A content script with its credentials loaded, on a profile that exists already.\<close>

definition example_credentials :: credentials where
  "example_credentials =
     \<lparr>backend_url = ''http://localhost:8000/'', odoo_server = ''https://odoo.example'',
      odoo_db_name = ''db'', username = ''u'', api_token = ''t''\<rparr>"

definition example_content :: content_state where
  "example_content =
     \<lparr>odooCredentials = example_credentials, contactExists = True, contactId = Some ''7'',
      button_label = UpdateContact, button_disabled = False, toast = None, console = [],
      requests = [], reload_scheduled = False\<rparr>"

text \<open>A document in which no selector finds anything.\<close>

definition blank_document :: "string \<Rightarrow> document" where
  "blank_document h =
     \<lparr>href = h, main_section = None, aria_photo_src = None, new_name_text = None,
      contact_link_city = None, about_text = None, old_experience = None,
      new_experience = None, svg_email_href = None, svg_phone_texts = None,
      svg_birthday_texts = None, svg_links = None, modal_sections = None,
      dom_exception = None\<rparr>"

text \<open>A profile page with a name and a contact info overlay that shows an email.\<close>

definition example_page :: page where
  "example_page =
     \<lparr>main_doc = (blank_document ''https://www.linkedin.com/in/a?x=1'')
                   \<lparr>main_section := Some (Some ''Ann Lee'', Some ''Paris'')\<rparr>,
      contact_link = True,
      overlay_doc = (blank_document ''https://www.linkedin.com/in/a/overlay/contact-info/'')
                      \<lparr>main_section := Some (Some ''Ann Lee'', Some ''Paris''),
                       svg_email_href := Some ''mailto:ann@x.com''\<rparr>\<rparr>"

definition example_click :: click_env where
  "example_click =
     \<lparr>stored_credentials = example_credentials, stored_campaign_id = Some ''1'',
      location = ''https://www.linkedin.com/in/a'', profile_page = example_page,
      campaigns_fetch = Response True 200 (Inr [campaign_Q4, campaign_Q1]),
      create_fetch = Response True 200 (Inr \<lparr>cr_person_id = Some ''7'', cr_detail = None\<rparr>)\<rparr>"

text \<open>A profile page on which no selector finds anything, and a click on it.\<close>

definition bare_page :: page where
  "bare_page =
     \<lparr>main_doc = blank_document ''https://www.linkedin.com/in/a'', contact_link = False,
      overlay_doc = blank_document ''https://www.linkedin.com/in/a''\<rparr>"

definition bare_click :: click_env where
  "bare_click = example_click\<lparr>profile_page := bare_page\<rparr>"

text \<open>An anchor of the contact info modal, with its label in the next sibling.\<close>

definition example_link :: link where
  "example_link =
     \<lparr>l_href = ''https://a.example/'', l_hostname = Some ''a.example'', l_url_param = None,
      l_text = ''a.example'', l_next_text = Some ''(Blog)''\<rparr>"

definition example_check :: check_env where
  "example_check =
     \<lparr>ce_location = ''https://www.linkedin.com/in/a'', ce_h1_text = Some ''Ann Lee'',
      ce_badge_text = None, ce_fetch = Response False 500 (Inl ''Unexpected token'')\<rparr>"

text \<open>The popup of the example with a form that holds white space only.\<close>

definition blank_popup :: popup_state where
  "blank_popup = example_popup\<lparr>form := (\<lambda>i. if i \<in> set formFields then Some ''  '' else None)\<rparr>"

definition example_reply :: upload_reply where
  "example_reply = \<lparr>up_person_id = ''7'', up_company_id = None, up_detail = None\<rparr>"

text \<open>The website list of the specification: the same address twice, then another one.\<close>

definition example_websites :: "website_entry list" where
  "example_websites =
     [\<lparr>w_url = ''https://a.example'', w_desc = ''Blog''\<rparr>,
      \<lparr>w_url = ''https://a.example'', w_desc = ''Copy''\<rparr>,
      \<lparr>w_url = ''https://b.example'', w_desc = []\<rparr>]"

text \<open>
  The two passes of the older content script on a profile with an about text and one website
  in its contact info modal.
\<close>

definition old_main_pass :: profile where
  "old_main_pass =
     empty_profile\<lparr>url := ''https://www.linkedin.com/in/a'',
                     additional_info := compose_additional_info_old ''Hi'' [] []\<rparr>"

definition old_overlay_pass :: profile where
  "old_overlay_pass =
     empty_profile\<lparr>url := ''https://www.linkedin.com/in/a'',
                     additional_info :=
                       compose_additional_info_old ''Hi'' (old_website_list [example_link]) []\<rparr>"

section \<open>Properties\<close>

subsection \<open>Emptiness\<close>

lemma all_fields_empty_iff: "all_fields_empty obj fs = (\<forall>f \<in> set fs. \<not> truthy (obj f))"
  by (induction fs) auto

lemma isProfileDataEmpty_iff:
  "isProfileDataEmpty (Some d) =
     (name d = [] \<and> job_position d = [] \<and> company d = [] \<and> city d = [] \<and> website d = []
      \<and> email d = [] \<and> phone d = [] \<and> additional_info d = [])"
  by (simp add: isProfileDataEmpty_def all_fields_empty_iff profileKeyFields_def profile_get_def)

lemma isPayloadDataEmpty_iff:
  "isPayloadDataEmpty (Some p) = (\<forall>f \<in> set payloadKeyFields. \<not> truthy (p f))"
  by (simp add: isPayloadDataEmpty_def all_fields_empty_iff)

text \<open>
  C1, amended. A record whose key fields are all empty (name, job position, company, city,
  website, email, phone and additional info) is classified as empty by
  \<open>isProfileDataEmpty\<close>, whatever its \<open>url\<close>, photo, company photo, company link and birthday
  are; a record with a name, job position, company, city, email, phone or additional info is
  not. A payload whose ten key fields are all empty is classified as empty by
  \<open>isPayloadDataEmpty\<close>; a payload with a key field other than the website is not. A missing
  object is empty.
\<close>

theorem emptiness_by_key_fields:
  "isProfileDataEmpty None \<and> isPayloadDataEmpty None
   \<and> (name d = [] \<and> job_position d = [] \<and> company d = [] \<and> city d = [] \<and> website d = []
        \<and> email d = [] \<and> phone d = [] \<and> additional_info d = [] \<longrightarrow>
        isProfileDataEmpty (Some d))
   \<and> (name d \<noteq> [] \<or> job_position d \<noteq> [] \<or> company d \<noteq> [] \<or> city d \<noteq> []
        \<or> email d \<noteq> [] \<or> phone d \<noteq> [] \<or> additional_info d \<noteq> [] \<longrightarrow>
        \<not> isProfileDataEmpty (Some d))
   \<and> ((\<forall>f \<in> set payloadKeyFields. \<not> truthy (p f)) \<longrightarrow> isPayloadDataEmpty (Some p))
   \<and> ((\<exists>f \<in> set payloadKeyFields. f \<noteq> ''website'' \<and> truthy (p f)) \<longrightarrow>
        \<not> isPayloadDataEmpty (Some p))"
proof -
  have none: "isProfileDataEmpty None" "isPayloadDataEmpty None"
    by (simp_all add: isProfileDataEmpty_def isPayloadDataEmpty_def)
  show ?thesis
    using none isProfileDataEmpty_iff [of d] isPayloadDataEmpty_iff [of p] by blast
qed

theorem emptiness_by_key_fields_witness:
  "isProfileDataEmpty (Some photo_only_profile)
   \<and> \<not> isProfileDataEmpty (Some (empty_profile\<lparr>name := ''Ann''\<rparr>))
   \<and> isPayloadDataEmpty (Some (\<lambda>f. None))
   \<and> \<not> isPayloadDataEmpty (Some (\<lambda>f. if f = ''name'' then Some ''Ann'' else None))"
proof -
  have 1: "isProfileDataEmpty (Some photo_only_profile)"
    using emptiness_by_key_fields [of photo_only_profile "\<lambda>f. None"]
    by (simp add: photo_only_profile_def empty_profile_def)
  have 2: "\<not> isProfileDataEmpty (Some (empty_profile\<lparr>name := ''Ann''\<rparr>))"
    using emptiness_by_key_fields [of "empty_profile\<lparr>name := ''Ann''\<rparr>" "\<lambda>f. None"]
    by simp
  have 3: "isPayloadDataEmpty (Some (\<lambda>f. None))"
    using emptiness_by_key_fields [of empty_profile "\<lambda>f. None"]
    by simp
  have 4: "\<not> isPayloadDataEmpty (Some (\<lambda>f. if f = ''name'' then Some ''Ann'' else None))"
    using emptiness_by_key_fields
      [of empty_profile "\<lambda>f. if f = ''name'' then Some ''Ann'' else None"]
    by (simp add: payloadKeyFields_def)
  from 1 2 3 4 show ?thesis by simp
qed

text \<open>
  C1 as stated fails twice. A record in which every field but \<open>url\<close> and \<open>website\<close> is
  empty is not classified as empty, and a record whose only other field is the photo is
  classified as empty.
\<close>

theorem emptiness_counterexample:
  "name website_only_profile = [] \<and> job_position website_only_profile = []
   \<and> photo website_only_profile = [] \<and> company website_only_profile = []
   \<and> city website_only_profile = [] \<and> email website_only_profile = []
   \<and> phone website_only_profile = [] \<and> additional_info website_only_profile = []
   \<and> company_photo website_only_profile = [] \<and> company_linkedin_url website_only_profile = []
   \<and> birthday website_only_profile = []
   \<and> \<not> isProfileDataEmpty (Some website_only_profile)
   \<and> photo photo_only_profile \<noteq> []
   \<and> isProfileDataEmpty (Some photo_only_profile)"
  by (simp add: website_only_profile_def photo_only_profile_def empty_profile_def
      isProfileDataEmpty_def profileKeyFields_def profile_get_def)

subsection \<open>The merge of the two passes\<close>

text \<open>
  C4. The merged record takes the website of the overlay pass when it is not empty and
  differs from the website of the main pass, and the email, phone and birthday of the overlay
  pass when they are not empty; otherwise it keeps the value of the main pass. The older
  merge agrees on website, email and phone.
\<close>

theorem merge_priority:
  "website (merge_contact_data main overlay) =
     (if website overlay \<noteq> [] \<and> website overlay \<noteq> website main then website overlay
      else website main)
   \<and> email (merge_contact_data main overlay) =
       (if email overlay \<noteq> [] then email overlay else email main)
   \<and> phone (merge_contact_data main overlay) =
       (if phone overlay \<noteq> [] then phone overlay else phone main)
   \<and> birthday (merge_contact_data main overlay) =
       (if birthday overlay \<noteq> [] then birthday overlay else birthday main)
   \<and> website (merge_contact_data_old main overlay) = website (merge_contact_data main overlay)
   \<and> email (merge_contact_data_old main overlay) = email (merge_contact_data main overlay)
   \<and> phone (merge_contact_data_old main overlay) = phone (merge_contact_data main overlay)"
  by (simp add: merge_contact_data_def merge_contact_data_old_def or_else_def Let_def)

text \<open>The example of the specification.\<close>

theorem merge_priority_witness:
  "website (merge_contact_data main_pass_example overlay_pass_example) = ''https://x/in/a/clean''
   \<and> email (merge_contact_data main_pass_example overlay_pass_example) = ''e@x.com''"
  using merge_priority [of main_pass_example overlay_pass_example]
  by (simp add: main_pass_example_def overlay_pass_example_def empty_profile_def)

subsection \<open>The tag lists of the popup\<close>

lemma set_push_missing: "set (push_missing tags arr) = set arr \<union> set tags"
  by (induction tags arbitrary: arr) auto

lemma push_missing_present: "set tags \<subseteq> set arr \<Longrightarrow> push_missing tags arr = arr"
  by (induction tags arbitrary: arr) auto

lemma distinct_push_missing: "distinct arr \<Longrightarrow> distinct (push_missing tags arr)"
  by (induction tags arbitrary: arr) auto

lemma set_push_name: "set (push_name n arr) = set arr \<union> (if n \<noteq> [] then {n} else {})"
  by (auto simp: push_name_def)

lemma distinct_push_name: "distinct arr \<Longrightarrow> distinct (push_name n arr)"
  by (simp add: push_name_def)

lemma push_twice:
  "push_name n (push_missing tags (push_name n (push_missing tags arr))) =
   push_name n (push_missing tags arr)"
proof -
  let ?once = "push_name n (push_missing tags arr)"
  have "set tags \<subseteq> set ?once"
    by (auto simp: set_push_name set_push_missing)
  then have "push_missing tags ?once = ?once"
    by (rule push_missing_present)
  moreover have "push_name n ?once = ?once"
    by (simp add: push_name_def)
  ultimately show ?thesis by simp
qed

lemma splice_loop_filter:
  "i \<le> length arr \<Longrightarrow>
   splice_loop toRemove i arr = filter (\<lambda>t. t \<notin> set toRemove) (take i arr) @ drop i arr"
proof (induction i arbitrary: arr)
  case 0
  then show ?case by simp
next
  case (Suc i)
  then have i: "i < length arr" by simp
  show ?case
  proof (cases "arr ! i \<in> set toRemove")
    case True
    have "splice_loop toRemove (Suc i) arr = splice_loop toRemove i (take i arr @ drop (Suc i) arr)"
      using True by simp
    also have "\<dots> = filter (\<lambda>t. t \<notin> set toRemove) (take i (take i arr @ drop (Suc i) arr))
                     @ drop i (take i arr @ drop (Suc i) arr)"
      using i by (intro Suc.IH) simp
    also have "\<dots> = filter (\<lambda>t. t \<notin> set toRemove) (take i arr) @ drop (Suc i) arr"
      using i by simp
    also have "\<dots> = filter (\<lambda>t. t \<notin> set toRemove) (take (Suc i) arr) @ drop (Suc i) arr"
      using i True by (simp add: take_Suc_conv_app_nth)
    finally show ?thesis .
  next
    case False
    have "splice_loop toRemove (Suc i) arr = splice_loop toRemove i arr"
      using False by simp
    also have "\<dots> = filter (\<lambda>t. t \<notin> set toRemove) (take i arr) @ drop i arr"
      using i by (intro Suc.IH) simp
    also have "\<dots> = filter (\<lambda>t. t \<notin> set toRemove) (take (Suc i) arr) @ drop (Suc i) arr"
      using i False by (simp add: take_Suc_conv_app_nth Cons_nth_drop_Suc)
    finally show ?thesis .
  qed
qed

lemma splice_loop_all:
  "splice_loop toRemove (length arr) arr = filter (\<lambda>t. t \<notin> set toRemove) arr"
  by (simp add: splice_loop_filter)

lemma saveState_fields:
  "personTags (saveState st) = personTags st" "companyTags (saveState st) = companyTags st"
  "allCampaigns (saveState st) = allCampaigns st" "currentCampaignId (saveState st) = currentCampaignId st"
  by (simp_all add: saveState_def)

lemma saveState_twice: "saveState (saveState st) = saveState st"
  by (simp add: saveState_def)

lemma find_first_in_set: "find_first p xs = Some x \<Longrightarrow> x \<in> set xs"
  by (induction xs) (auto split: if_splits)

lemma find_campaign_in_set: "find_campaign cs i = Some c \<Longrightarrow> c \<in> set cs"
  by (auto simp: find_campaign_def dest: find_first_in_set split: option.splits)

lemma set_tags_to_remove:
  "n \<noteq> [] \<Longrightarrow> set (tags_to_remove declared n) = set (tags_or_empty declared) \<union> {n}"
  by (simp add: tags_to_remove_def)

text \<open>
  C2. When every campaign has a name (\<open>saveCampaign\<close> refuses a campaign without one), a
  change of the active campaign from \<open>A\<close> to \<open>B\<close>, either of which may be no campaign,
  leaves in each tag list, as a set, the old values without those of \<open>A\<close>'s declared tags
  and name that \<open>B\<close> does not produce, together with \<open>B\<close>'s declared tags and name.
\<close>

theorem campaign_change_tags:
  "\<forall>c \<in> set (allCampaigns st). c_name c \<noteq> [] \<Longrightarrow>
   (let A = find_campaign (allCampaigns st) (currentCampaignId st);
        B = find_campaign (allCampaigns st) (if newCampaignId \<noteq> [] then Some newCampaignId else None);
        st' = handleCampaignChange newCampaignId st
    in set (personTags st') =
         (set (personTags st) - (produced_tags person_tags A - produced_tags person_tags B))
           \<union> produced_tags person_tags B
       \<and> set (companyTags st') =
         (set (companyTags st) - (produced_tags company_tags A - produced_tags company_tags B))
           \<union> produced_tags company_tags B)"
proof -
  assume names: "\<forall>c \<in> set (allCampaigns st). c_name c \<noteq> []"
  let ?newId = "if newCampaignId \<noteq> [] then Some newCampaignId else None"
  have nameA: "c_name a \<noteq> []" if "find_campaign (allCampaigns st) (currentCampaignId st) = Some a" for a
    using names find_campaign_in_set [OF that] by blast
  have nameB: "c_name b \<noteq> []" if "find_campaign (allCampaigns st) ?newId = Some b" for b
    using names find_campaign_in_set [OF that] by blast
  show ?thesis
  proof (cases "find_campaign (allCampaigns st) (currentCampaignId st)")
    case None
    show ?thesis
    proof (cases "find_campaign (allCampaigns st) ?newId")
      case None2: None
      with None show ?thesis
        by (simp add: handleCampaignChange_def applyCampaignTags_def Let_def saveState_fields)
    next
      case (Some b)
      with None nameB [OF Some] show ?thesis
        by (auto simp: handleCampaignChange_def applyCampaignTags_def Let_def saveState_fields
            set_push_name set_push_missing)
    qed
  next
    case (Some a)
    note A = Some
    show ?thesis
    proof (cases "find_campaign (allCampaigns st) ?newId")
      case None
      with A nameA [OF A] show ?thesis
        by (auto simp: handleCampaignChange_def applyCampaignTags_def Let_def saveState_fields
            splice_loop_all set_tags_to_remove)
    next
      case (Some b)
      with A nameA [OF A] nameB [OF Some] show ?thesis
        by (auto simp: handleCampaignChange_def applyCampaignTags_def Let_def saveState_fields
            splice_loop_all set_tags_to_remove set_push_name set_push_missing)
    qed
  qed
qed

text \<open>The example of the specification: from Q4 to Q1, starting from Manual, Lead, Q4.\<close>

theorem campaign_change_tags_witness:
  "allCampaigns example_popup = [campaign_Q4, campaign_Q1]
   \<and> c_name campaign_Q4 \<noteq> [] \<and> c_name campaign_Q1 \<noteq> []
   \<and> find_campaign (allCampaigns example_popup) (currentCampaignId example_popup) = Some campaign_Q4
   \<and> find_campaign (allCampaigns example_popup) (Some ''2'') = Some campaign_Q1
   \<and> set (personTags (handleCampaignChange ''2'' example_popup)) = {''Manual'', ''Hot'', ''Q1''}"
proof -
  have names: "\<forall>c \<in> set (allCampaigns example_popup). c_name c \<noteq> []"
    by (simp add: example_popup_def campaign_Q4_def campaign_Q1_def)
  have A: "find_campaign (allCampaigns example_popup) (currentCampaignId example_popup) = Some campaign_Q4"
    by (simp add: example_popup_def campaign_Q4_def campaign_Q1_def find_campaign_def)
  have B: "find_campaign (allCampaigns example_popup) (Some ''2'') = Some campaign_Q1"
    by (simp add: example_popup_def campaign_Q4_def campaign_Q1_def find_campaign_def)
  have start: "set (personTags example_popup) = {''Manual'', ''Lead'', ''Q4''}"
    by (simp add: example_popup_def)
  have "set (personTags (handleCampaignChange ''2'' example_popup)) = {''Manual'', ''Hot'', ''Q1''}"
    using campaign_change_tags [OF names, of "''2''"] A B start
    by (auto simp: Let_def campaign_Q4_def campaign_Q1_def tags_or_empty_def)
  moreover have "allCampaigns example_popup = [campaign_Q4, campaign_Q1]"
    by (simp add: example_popup_def)
  moreover have "c_name campaign_Q4 \<noteq> []" "c_name campaign_Q1 \<noteq> []"
    by (simp_all add: campaign_Q4_def campaign_Q1_def)
  ultimately show ?thesis using A B by simp
qed

text \<open>
  C3. Applying the tags of a campaign a second time changes nothing: the popup is left exactly
  as the first application left it, the two tag lists included, so no value is added, removed
  or repeated. An application never introduces a repeated value.
\<close>

theorem applyCampaignTags_idempotent:
  "applyCampaignTags cid force (applyCampaignTags cid force st) = applyCampaignTags cid force st
   \<and> (distinct (personTags st) \<longrightarrow> distinct (personTags (applyCampaignTags cid force st)))
   \<and> (distinct (companyTags st) \<longrightarrow> distinct (companyTags (applyCampaignTags cid force st)))"
proof -
  have twice:
    "applyCampaignTags cid force (applyCampaignTags cid force st) = applyCampaignTags cid force st"
  proof (cases "find_campaign (allCampaigns st) cid")
    case None
    then show ?thesis
      by (simp add: applyCampaignTags_def saveState_fields saveState_twice)
  next
    case (Some c)
    show ?thesis
    proof (cases force)
      case True
      with Some show ?thesis
        by (simp add: applyCampaignTags_def Let_def saveState_def push_twice)
    next
      case False
      with Some show ?thesis
        by (simp add: applyCampaignTags_def Let_def saveState_def push_twice)
    qed
  qed
  have person: "distinct (personTags st) \<Longrightarrow> distinct (personTags (applyCampaignTags cid force st))"
    by (simp add: applyCampaignTags_def Let_def saveState_fields distinct_push_name
        distinct_push_missing split: option.splits)
  have company: "distinct (companyTags st) \<Longrightarrow> distinct (companyTags (applyCampaignTags cid force st))"
    by (simp add: applyCampaignTags_def Let_def saveState_fields distinct_push_name
        distinct_push_missing split: option.splits)
  from twice person company show ?thesis by blast
qed

theorem applyCampaignTags_idempotent_witness:
  "distinct (personTags example_popup)
   \<and> personTags (applyCampaignTags (Some ''2'') True example_popup) =
       [''Manual'', ''Lead'', ''Q4'', ''Hot'', ''Q1'']
   \<and> personTags (applyCampaignTags (Some ''2'') True
                    (applyCampaignTags (Some ''2'') True example_popup)) =
       [''Manual'', ''Lead'', ''Q4'', ''Hot'', ''Q1'']
   \<and> distinct (personTags (applyCampaignTags (Some ''2'') True example_popup))"
proof -
  have once: "personTags (applyCampaignTags (Some ''2'') True example_popup) =
                [''Manual'', ''Lead'', ''Q4'', ''Hot'', ''Q1'']"
    by (simp add: example_popup_def campaign_Q4_def campaign_Q1_def applyCampaignTags_def
        find_campaign_def tags_or_empty_def push_name_def saveState_def Let_def)
  have d: "distinct (personTags example_popup)"
    by (simp add: example_popup_def)
  from applyCampaignTags_idempotent [of "Some ''2''" True example_popup] once d
  show ?thesis by simp
qed

subsection \<open>The floating button\<close>

lemma contactExists_simps:
  "contactExists (showToast m e st) = contactExists st"
  "contactExists (console_write lv m st) = contactExists st"
  "contactExists (send u b st) = contactExists st"
  "contactExists (updateButtonState loc st) = contactExists st"
  by (simp_all add: showToast_def console_write_def send_def updateButtonState_def)

lemma requests_simps:
  "requests (showToast m e st) = requests st"
  "requests (console_write lv m st) = requests st"
  "requests (send u b st) = requests st @ [\<lparr>req_url = u, req_body = b\<rparr>]"
  "requests (updateButtonState loc st) = requests st"
  by (simp_all add: showToast_def console_write_def send_def updateButtonState_def)

lemma console_simps:
  "console (showToast m e st) = console st"
  "console (console_write lv m st) = console st @ [(lv, m)]"
  "console (send u b st) = console st"
  "console (updateButtonState loc st) = console st"
  by (simp_all add: showToast_def console_write_def send_def updateButtonState_def)

lemma toast_simps:
  "toast (showToast m e st) = Some (m, e)"
  "toast (console_write lv m st) = toast st"
  "toast (send u b st) = toast st"
  "toast (updateButtonState loc st) = toast st"
  by (simp_all add: showToast_def console_write_def send_def updateButtonState_def)

lemma load_campaigns_contactExists:
  "contactExists (snd (load_campaigns b env st)) = contactExists st"
  by (simp add: load_campaigns_def Let_def contactExists_simps
      split: fetch_result.splits sum.splits)

lemma create_contact_contactExists:
  "contactExists (snd (create_contact b p cs env st)) =
     (contactExists st \<or> \<not> remote_call_failed (create_fetch env))"
  by (cases "create_fetch env")
     (auto simp: create_contact_def Let_def contactExists_simps split: sum.splits)

lemma click_catch_contactExists: "contactExists (click_catch r) = contactExists (snd r)"
  by (cases r) (simp add: click_catch_def contactExists_simps split: option.splits)

lemma click_try_contactExists:
  "contactExists (snd (click_try env st)) =
     (contactExists st
      \<or> (backend_url (stored_credentials env) \<noteq> []
         \<and> (case scrapeProfileAndContactInfo (profile_page env) of
               Inl e \<Rightarrow> False
             | Inr p \<Rightarrow> \<not> isProfileDataEmpty (Some p))
         \<and> \<not> remote_call_failed (create_fetch env)))"
proof (cases "scrapeProfileAndContactInfo (profile_page env)")
  case (Inl e)
  then show ?thesis
    by (simp add: click_try_def Let_def contactExists_simps)
next
  case (Inr p)
  then show ?thesis
    by (cases "load_campaigns (strip_trailing_slashes (backend_url (stored_credentials env))) env
                 (st\<lparr>odooCredentials := stored_credentials env\<rparr>)")
       (use load_campaigns_contactExists
            [of "strip_trailing_slashes (backend_url (stored_credentials env))" env
                "st\<lparr>odooCredentials := stored_credentials env\<rparr>"]
        in \<open>auto simp: click_try_def Let_def contactExists_simps create_contact_contactExists\<close>)
qed

text \<open>
  C6. A click whose remote call fails (a network exception, a response that is not ok, or
  an error detail) leaves \<open>contactExists\<close> as it was. After any click \<open>contactExists\<close>
  is true only when it was true before, or when the click reached \<open>/create_contact\<close> (the
  backend URL is set, the scrape succeeded with a profile that is not empty) and the remote
  call did not fail.
\<close>

theorem failed_click_keeps_existence:
  "(remote_call_failed (create_fetch env) \<longrightarrow>
      contactExists (handleFloatingButtonClick env st) = contactExists st)
   \<and> contactExists (handleFloatingButtonClick env st) =
       (contactExists st
        \<or> (backend_url (stored_credentials env) \<noteq> []
           \<and> (case scrapeProfileAndContactInfo (profile_page env) of
                 Inl e \<Rightarrow> False
               | Inr p \<Rightarrow> \<not> isProfileDataEmpty (Some p))
           \<and> \<not> remote_call_failed (create_fetch env)))"
  by (simp add: handleFloatingButtonClick_def Let_def contactExists_simps
      click_catch_contactExists click_try_contactExists)

theorem failed_click_keeps_existence_witness:
  "remote_call_failed (NetworkError ''Failed to fetch'')
   \<and> contactExists (handleFloatingButtonClick
         (example_click\<lparr>create_fetch := NetworkError ''Failed to fetch''\<rparr>)
         (example_content\<lparr>contactExists := False\<rparr>)) = False"
  using failed_click_keeps_existence
    [of "example_click\<lparr>create_fetch := NetworkError ''Failed to fetch''\<rparr>"
        "example_content\<lparr>contactExists := False\<rparr>"]
  by simp

text \<open>
  C8. When the identity check is made (credentials are set, the page is a profile page and a
  name is found) and its request throws or its response is not ok, then \<open>contactExists\<close>
  is false and the button offers to create the contact, one error entry is written to the
  console, and exactly one request has been sent: the check is not tried again.
\<close>

theorem checkContactStatus_fails_open:
  "api_token (odooCredentials st) \<noteq> [] \<Longrightarrow> backend_url (odooCredentials st) \<noteq> [] \<Longrightarrow>
   js_includes ''linkedin.com/in/'' (ce_location env) \<Longrightarrow> page_name env \<noteq> [] \<Longrightarrow>
   check_failed (ce_fetch env) \<Longrightarrow>
   \<not> contactExists (checkContactStatus env st)
   \<and> button_label (checkContactStatus env st) = CreateContact
   \<and> \<not> button_disabled (checkContactStatus env st)
   \<and> (\<exists>entry. console (checkContactStatus env st) = console st @ [(Err, entry)])
   \<and> requests (checkContactStatus env st) =
       requests st @
       [\<lparr>req_url = strip_trailing_slashes (backend_url (odooCredentials st)) @ ''/check_contact'',
         req_body = credentials_body (odooCredentials st) @ [(''name'', page_name env)]\<rparr>]"
  by (cases "ce_fetch env")
     (auto simp: checkContactStatus_def check_request_def Let_def updateButtonState_def
        console_write_def send_def split: sum.splits)

theorem checkContactStatus_fails_open_witness:
  "check_failed (ce_fetch example_check)
   \<and> \<not> contactExists (checkContactStatus example_check example_content)
   \<and> button_label (checkContactStatus example_check example_content) = CreateContact
   \<and> console (checkContactStatus example_check example_content) =
       [(Err, ''Check Contact Error: Status 500'')]
   \<and> map req_url (requests (checkContactStatus example_check example_content)) =
       [''http://localhost:8000/check_contact'']"
proof -
  have h: "api_token (odooCredentials example_content) \<noteq> []"
    "backend_url (odooCredentials example_content) \<noteq> []"
    "js_includes ''linkedin.com/in/'' (ce_location example_check)"
    "page_name example_check \<noteq> []"
    "check_failed (ce_fetch example_check)"
    by (simp_all add: example_content_def example_credentials_def example_check_def page_name_def
        or_else_def trim_def is_space_def newline_def)
  have n: "show_nat 500 = ''500''"
    by code_simp
  have c: "console (checkContactStatus example_check example_content) =
             [(Err, ''Check Contact Error: Status 500'')]"
    by (simp add: checkContactStatus_def check_request_def Let_def updateButtonState_def
        console_write_def send_def example_content_def example_credentials_def example_check_def
        page_name_def or_else_def trim_def is_space_def newline_def n)
  have s: "strip_trailing_slashes (backend_url (odooCredentials example_content)) = ''http://localhost:8000''"
    by (simp add: example_content_def example_credentials_def strip_trailing_slashes_def)
  have r: "requests example_content = []"
    by (simp add: example_content_def)
  from checkContactStatus_fails_open [OF h] c s r show ?thesis
    using h(5) by simp
qed

subsection \<open>The upload of the popup\<close>

text \<open>
  C10. After an upload from the popup the session cache has lost the entry of the current
  profile URL when \<open>/create_contact\<close> was asked and answered with ok and a readable body;
  in every other case (rejected locally, a network exception, a body that cannot be read, a
  response that is not ok) the session cache is what it was.
\<close>

theorem upload_session_cache:
  "session (handleUpload answer st) =
     (if snd (checkCredentials st) \<and> \<not> isPayloadDataEmpty (Some (form_payload st))
         \<and> upload_answer_ok answer
      then (session st)(currentTabUrl st := None)
      else session st)"
proof -
  have same: "form_payload (fst (checkCredentials st)) = form_payload st"
    by (rule ext) (simp add: form_payload_def checkCredentials_def Let_def updateResult_def)
  have keep: "session (fst (checkCredentials st)) = session st"
    "currentTabUrl (fst (checkCredentials st)) = currentTabUrl st"
    by (simp_all add: checkCredentials_def Let_def updateResult_def)
  have ready: "snd (checkCredentials st) \<Longrightarrow> h_backend_url (hidden (fst (checkCredentials st))) \<noteq> []"
    by (simp add: checkCredentials_def Let_def updateResult_def)
  have req: "session (upload_request answer s) =
               (if h_backend_url (hidden s) \<noteq> [] \<and> upload_answer_ok answer
                then (session s)(currentTabUrl s := None) else session s)" for s
    by (cases answer)
       (auto simp: upload_request_def upload_failed_def updateResult_def Let_def
          split: sum.splits option.splits)
  show ?thesis
    using same keep ready
    by (cases "checkCredentials st")
       (auto simp: handleUpload_def req updateResult_def)
qed

theorem upload_session_cache_witness:
  "session example_popup (currentTabUrl example_popup) \<noteq> None
   \<and> session (handleUpload (Response True 200 (Inr example_reply)) example_popup)
         (currentTabUrl example_popup) = None
   \<and> session (handleUpload (Response False 500 (Inr example_reply)) example_popup) =
       session example_popup
   \<and> session (handleUpload (NetworkError ''Failed to fetch'') example_popup) =
       session example_popup"
proof -
  have c: "snd (checkCredentials example_popup)"
    by (simp add: checkCredentials_def example_popup_def Let_def)
  have p: "\<not> isPayloadDataEmpty (Some (form_payload example_popup))"
    by (simp add: isPayloadDataEmpty_def payloadKeyFields_def form_payload_def example_popup_def
        formFields_def trim_def is_space_def)
  have s: "session example_popup (currentTabUrl example_popup) \<noteq> None"
    by (simp add: example_popup_def)
  from upload_session_cache [of "Response True 200 (Inr example_reply)" example_popup]
    upload_session_cache [of "Response False 500 (Inr example_reply)" example_popup]
    upload_session_cache [of "NetworkError ''Failed to fetch''" example_popup]
    c p s
  show ?thesis by simp
qed

subsection \<open>The address of a scraped record\<close>

lemma starts_with_append: "starts_with p xs \<Longrightarrow> starts_with p (xs @ ys)"
  by (induction p xs rule: starts_with.induct) auto

lemma split_first_rest:
  "\<exists>rest. s = split_first sep s @ rest \<and> (rest = [] \<or> starts_with sep rest)"
proof (induction s)
  case Nil
  then show ?case by simp
next
  case (Cons c cs)
  then show ?case by (cases "starts_with sep (c # cs)") auto
qed

lemma split_first_no_sep: "sep \<noteq> [] \<Longrightarrow> \<not> js_includes sep (split_first sep s)"
proof (induction s)
  case Nil
  then show ?case by simp
next
  case (Cons c cs)
  show ?case
  proof (cases "starts_with sep (c # cs)")
    case True
    with Cons.prems show ?thesis by simp
  next
    case False
    obtain rest where r: "cs = split_first sep cs @ rest"
      using split_first_rest [of cs sep] by blast
    have "\<not> starts_with sep (c # split_first sep cs)"
    proof
      assume "starts_with sep (c # split_first sep cs)"
      then have "starts_with sep ((c # split_first sep cs) @ rest)"
        by (rule starts_with_append)
      with r False show False by simp
    qed
    with False Cons show ?thesis by simp
  qed
qed

lemma set_split_first: "set (split_first sep s) \<subseteq> set s"
  by (induction s) auto

lemma split_first_question: "CHR ''?'' \<notin> set (split_first ''?'' s)"
  by (induction s) auto

lemma split_first_nonempty:
  "s \<noteq> [] \<Longrightarrow> sep \<noteq> [] \<Longrightarrow> hd s \<noteq> hd sep \<Longrightarrow>
   split_first sep s \<noteq> [] \<and> hd (split_first sep s) = hd s"
  by (cases s; cases sep) auto

lemma clean_current_url_rest:
  "\<exists>rest. h = clean_current_url h @ rest
          \<and> (rest = [] \<or> starts_with ''?'' rest \<or> starts_with ''/overlay/'' rest)"
proof -
  obtain r1 where r1: "h = split_first ''?'' h @ r1" "r1 = [] \<or> starts_with ''?'' r1"
    using split_first_rest [of h "''?''"] by blast
  show ?thesis
  proof (cases "js_includes ''/overlay/'' (split_first ''?'' h)")
    case False
    with r1 show ?thesis by (auto simp: clean_current_url_def)
  next
    case True
    obtain r2 where r2: "split_first ''?'' h = split_first ''/overlay/'' (split_first ''?'' h) @ r2"
      "r2 = [] \<or> starts_with ''/overlay/'' r2"
      using split_first_rest [of "split_first ''?'' h" "''/overlay/''"] by blast
    have "r2 \<noteq> []"
    proof
      assume "r2 = []"
      with r2 have "split_first ''/overlay/'' (split_first ''?'' h) = split_first ''?'' h" by simp
      with split_first_no_sep [of "''/overlay/''" "split_first ''?'' h"] True show False by simp
    qed
    with r2 have s: "starts_with ''/overlay/'' (r2 @ r1)"
      by (auto intro: starts_with_append)
    have c: "clean_current_url h = split_first ''/overlay/'' (split_first ''?'' h)"
      using True by (simp add: clean_current_url_def)
    have "split_first ''?'' h @ r1 = (split_first ''/overlay/'' (split_first ''?'' h) @ r2) @ r1"
      using r2(1) by (rule arg_cong)
    with r1(1) c have "h = clean_current_url h @ (r2 @ r1)"
      by simp
    with s show ?thesis by blast
  qed
qed

lemma clean_current_url_no_query: "CHR ''?'' \<notin> set (clean_current_url h)"
  using split_first_question [of h] set_split_first [of "''/overlay/''" "split_first ''?'' h"]
  by (auto simp: clean_current_url_def Let_def)

lemma clean_current_url_no_overlay: "\<not> js_includes ''/overlay/'' (clean_current_url h)"
  using split_first_no_sep [of "''/overlay/''" "split_first ''?'' h"]
  by (simp add: clean_current_url_def Let_def)

lemma clean_current_url_nonempty:
  assumes "h \<noteq> []" "hd h \<noteq> CHR ''?''" "hd h \<noteq> CHR ''/''"
  shows "clean_current_url h \<noteq> []"
proof -
  have 1: "split_first ''?'' h \<noteq> [] \<and> hd (split_first ''?'' h) = hd h"
    using assms by (intro split_first_nonempty) simp_all
  then have 2: "split_first ''/overlay/'' (split_first ''?'' h) \<noteq> []"
    using assms split_first_nonempty [of "split_first ''?'' h" "''/overlay/''"] by simp
  from 1 2 show ?thesis by (simp add: clean_current_url_def Let_def)
qed

lemma website_scrape_header: "website (scrape_header doc d) = website d"
  by (simp add: scrape_header_def Let_def split: option.splits prod.splits)

lemma website_scrape_about: "website (scrape_about doc d) = website d"
  by (simp add: scrape_about_def split: option.splits)

lemma website_scrape_new_item: "website (scrape_new_item item d) = website d"
  by (simp add: scrape_new_item_def Let_def split: option.splits prod.splits list.splits)

lemma website_scrape_experience: "website (scrape_experience doc d) = website d"
  by (simp add: scrape_experience_def scrape_old_experience_def Let_def website_scrape_new_item
      split: option.splits prod.splits)

lemma website_scrape_contact_icons: "website (fst (scrape_contact_icons doc d)) = website d"
  by (simp add: scrape_contact_icons_def Let_def split: option.splits)

lemma website_modal_section:
  "website (fst st) \<noteq> [] \<Longrightarrow> website (fst (modal_section sec st)) \<noteq> []"
  by (cases st) (simp add: modal_section_def Let_def split: option.splits)

lemma website_modal_loop:
  "website (fst st) \<noteq> [] \<Longrightarrow> website (fst (modal_loop secs st)) \<noteq> []"
  by (induction secs arbitrary: st) (simp_all add: website_modal_section)

lemma website_scrape_modal:
  "website (fst st) \<noteq> [] \<Longrightarrow> website (fst (scrape_modal doc st)) \<noteq> []"
  by (simp add: scrape_modal_def website_modal_loop split: option.splits)

lemma scraped_website_nonempty:
  assumes "scrapeLinkedInProfile doc = Inr d" "clean_current_url (href doc) \<noteq> []"
  shows "website d \<noteq> []"
proof -
  let ?d0 = "initial_data (clean_current_url (href doc))"
  let ?st = "scrape_contact_icons doc (scrape_experience doc (scrape_about doc (scrape_header doc ?d0)))"
  have "website (fst ?st) \<noteq> []"
    using assms(2)
    by (simp add: website_scrape_contact_icons website_scrape_experience website_scrape_about
        website_scrape_header initial_data_def)
  then have "website (fst (scrape_modal doc ?st)) \<noteq> []"
    by (rule website_scrape_modal)
  with assms(1) show ?thesis
    by (auto simp: scrapeLinkedInProfile_def Let_def split: option.splits prod.splits)
qed

lemma blank_scrape_initial:
  "scrapeLinkedInProfile (blank_document h) = Inr (initial_data (clean_current_url h))"
  by (simp add: scrapeLinkedInProfile_def blank_document_def initial_data_def Let_def
      scrape_header_def scrape_about_def scrape_experience_def scrape_old_experience_def
      scrape_contact_icons_def scrape_modal_def format_additional_info_def
      additional_info_parts_def trim_def)

text \<open>
  C9. On a document in which no selector finds anything the scraper returns its initial
  record, whose \<open>url\<close> and \<open>website\<close> are both the current URL cut before its query string
  and before an overlay suffix: the result has no question mark and no \<open>/overlay/\<close>, and what
  was cut off starts with one of them. When the current URL starts like an absolute URL
  (it is not empty and starts neither with a question mark nor with a slash), that address
  is not empty, and every record the scraper returns for a document at this URL has a
  website that is not empty.
\<close>

theorem scraper_initial_address:
  "scrapeLinkedInProfile (blank_document h) = Inr (initial_data (clean_current_url h))
   \<and> url (initial_data (clean_current_url h)) = clean_current_url h
   \<and> website (initial_data (clean_current_url h)) = clean_current_url h
   \<and> CHR ''?'' \<notin> set (clean_current_url h)
   \<and> \<not> js_includes ''/overlay/'' (clean_current_url h)
   \<and> (\<exists>rest. h = clean_current_url h @ rest
          \<and> (rest = [] \<or> starts_with ''?'' rest \<or> starts_with ''/overlay/'' rest))
   \<and> (h \<noteq> [] \<and> hd h \<noteq> CHR ''?'' \<and> hd h \<noteq> CHR ''/'' \<longrightarrow>
        clean_current_url h \<noteq> []
        \<and> (\<forall>doc d. href doc = h \<and> scrapeLinkedInProfile doc = Inr d \<longrightarrow> website d \<noteq> []))"
proof -
  have last: "website d \<noteq> []"
    if "h \<noteq> []" "hd h \<noteq> CHR ''?''" "hd h \<noteq> CHR ''/''" "href doc = h"
       "scrapeLinkedInProfile doc = Inr d" for doc d
    using that scraped_website_nonempty [of doc d] clean_current_url_nonempty [of h] by simp
  show ?thesis
    using blank_scrape_initial clean_current_url_no_query clean_current_url_no_overlay
      clean_current_url_rest [of h] clean_current_url_nonempty [of h] last
    by (simp add: initial_data_def) blast
qed

text \<open>
  A consequence: the emptiness check of the floating button never fires on a record scraped
  from a page with such a URL.
\<close>

lemma scraped_profile_not_classified_empty:
  assumes "scrapeLinkedInProfile doc = Inr d"
    and "href doc \<noteq> []" "hd (href doc) \<noteq> CHR ''?''" "hd (href doc) \<noteq> CHR ''/''"
  shows "\<not> isProfileDataEmpty (Some d)"
  using scraped_website_nonempty [OF assms(1)] clean_current_url_nonempty [OF assms(2-4)]
  by (simp add: isProfileDataEmpty_iff)

lemma scrape_returns:
  "dom_exception doc = None \<Longrightarrow> \<exists>d. scrapeLinkedInProfile doc = Inr d"
  by (simp add: scrapeLinkedInProfile_def Let_def split: prod.splits)

theorem scraper_initial_address_witness:
  "clean_current_url ''https://www.linkedin.com/in/a/overlay/contact-info/?x=1'' =
     ''https://www.linkedin.com/in/a''
   \<and> (\<exists>d. scrapeLinkedInProfile
             ((blank_document ''https://www.linkedin.com/in/a/overlay/contact-info/?x=1'')
                \<lparr>about_text := Some '' Hi ''\<rparr>) = Inr d
          \<and> website d \<noteq> [])"
proof -
  let ?h = "''https://www.linkedin.com/in/a/overlay/contact-info/?x=1''"
  let ?doc = "(blank_document ?h)\<lparr>about_text := Some '' Hi ''\<rparr>"
  have c: "clean_current_url ?h = ''https://www.linkedin.com/in/a''"
    by (simp add: clean_current_url_def)
  obtain d where d: "scrapeLinkedInProfile ?doc = Inr d"
    using scrape_returns [of ?doc] by (auto simp: blank_document_def)
  have h: "href ?doc = ?h" by (simp add: blank_document_def)
  have "\<forall>doc d. href doc = ?h \<and> scrapeLinkedInProfile doc = Inr d \<longrightarrow> website d \<noteq> []"
    using scraper_initial_address [of ?h] by simp
  with d h have "website d \<noteq> []"
    by blast
  with c d show ?thesis by blast
qed

subsection \<open>The additional info\<close>

lemma trim_keep: "s \<noteq> [] \<Longrightarrow> \<not> is_space (hd s) \<Longrightarrow> \<not> is_space (last s) \<Longrightarrow> trim s = s"
proof -
  assume s: "s \<noteq> []" and h: "\<not> is_space (hd s)" and l: "\<not> is_space (last s)"
  from s h have 1: "dropWhile is_space s = s"
    by (cases s) simp_all
  from s l have 2: "dropWhile is_space (rev s) = rev s"
    by (cases "rev s") (simp_all add: last_rev [symmetric] del: last_rev)
  from 1 2 show ?thesis by (simp add: trim_def)
qed

lemma trim_append_newline:
  "s \<noteq> [] \<Longrightarrow> \<not> is_space (hd s) \<Longrightarrow> \<not> is_space (last s) \<Longrightarrow> trim (s @ newline) = s"
proof -
  assume s: "s \<noteq> []" and h: "\<not> is_space (hd s)" and l: "\<not> is_space (last s)"
  have nl: "is_space (CHR 0x0A)" by (simp add: is_space_def)
  from s h have 1: "dropWhile is_space (s @ newline) = s @ newline"
    by (cases s) simp_all
  from s l have 2: "dropWhile is_space (rev s) = rev s"
    by (cases "rev s") (simp_all add: last_rev [symmetric] del: last_rev)
  from 1 2 nl show ?thesis by (simp add: trim_def newline_def)
qed

lemma trim_ends: "trim s \<noteq> [] \<Longrightarrow> \<not> is_space (hd (trim s)) \<and> \<not> is_space (last (trim s))"
proof -
  assume ne: "trim s \<noteq> []"
  let ?t = "dropWhile is_space s"
  let ?u = "dropWhile is_space (rev ?t)"
  from ne have u: "?u \<noteq> []" by (simp add: trim_def)
  then have hu: "\<not> is_space (hd ?u)" by (metis hd_dropWhile)
  have t: "?t \<noteq> []"
  proof
    assume "?t = []"
    then have "?u = dropWhile is_space (rev [])" by (rule arg_cong)
    with u show False by simp
  qed
  then have ht: "\<not> is_space (hd ?t)" by (metis hd_dropWhile)
  from u obtain x where x: "x \<in> set (rev ?t)" "\<not> is_space x" by auto
  then have "last ?u = last (rev ?t)" by (rule dropWhile_last)
  with t have lu: "last ?u = hd ?t" by (simp add: last_rev)
  have "hd (trim s) = last ?u" using u by (simp add: trim_def hd_rev)
  moreover have "last (trim s) = hd ?u" using u by (simp add: trim_def last_rev)
  ultimately show ?thesis using hu ht lu by simp
qed

lemma trim_trim: "trim (trim s) = trim s"
proof (cases "trim s = []")
  case True
  then have "trim (trim s) = trim []" by (rule arg_cong)
  also have "trim [] = []" by (simp add: trim_def)
  finally show ?thesis using True by simp
next
  case False
  with trim_ends [OF False] show ?thesis by (intro trim_keep) simp_all
qed

lemma trimmed_ends: "trim b = b \<Longrightarrow> b \<noteq> [] \<Longrightarrow> \<not> is_space (last b) \<and> \<not> is_space (hd b)"
  using trim_ends [of b] by simp

lemma join_Cons: "xs \<noteq> [] \<Longrightarrow> join sep (x # xs) = x @ sep @ join sep xs"
  by (cases xs) simp_all

lemma join_append:
  "xs \<noteq> [] \<Longrightarrow> ys \<noteq> [] \<Longrightarrow> join sep (xs @ ys) = join sep xs @ sep @ join sep ys"
  by (induction sep xs rule: join.induct) (simp_all add: join_Cons)

lemma join_snoc_empty: "xs \<noteq> [] \<Longrightarrow> join sep (xs @ [[]]) = join sep xs @ sep"
  by (simp add: join_append)

lemma uniqueWebsites_nonempty: "ws \<noteq> [] \<Longrightarrow> uniqueWebsites [] ws \<noteq> []"
  by (cases ws) simp_all

lemma uniqueWebsites_urls:
  "set (map w_url (uniqueWebsites seen ws)) = set (map w_url ws) - set seen"
  by (induction ws arbitrary: seen) auto

lemma uniqueWebsites_first:
  "w \<in> set (uniqueWebsites seen ws) \<Longrightarrow>
   w_url w \<notin> set seen \<and> find_first (\<lambda>v. w_url v = w_url w) ws = Some w"
proof (induction ws arbitrary: seen)
  case Nil
  then show ?case by simp
next
  case (Cons x xs)
  show ?case
  proof (cases "w_url x \<in> set seen")
    case True
    with Cons.prems have "w \<in> set (uniqueWebsites seen xs)" by simp
    from Cons.IH [OF this] True show ?thesis by auto
  next
    case False
    show ?thesis
    proof (cases "w = x")
      case True
      with False show ?thesis by simp
    next
      case neq: False
      with False Cons.prems have "w \<in> set (uniqueWebsites (w_url x # seen) xs)" by simp
      from Cons.IH [OF this] show ?thesis by auto
    qed
  qed
qed

lemma uniqueWebsites_distinct: "distinct (map w_url (uniqueWebsites seen ws))"
proof (induction ws arbitrary: seen)
  case Nil
  then show ?case by simp
next
  case (Cons x xs)
  have "w_url x \<notin> w_url ` set (uniqueWebsites (w_url x # seen) xs)"
  proof
    assume "w_url x \<in> w_url ` set (uniqueWebsites (w_url x # seen) xs)"
    then obtain w where w: "w \<in> set (uniqueWebsites (w_url x # seen) xs)" "w_url w = w_url x"
      by auto
    from uniqueWebsites_first [OF w(1)] have "w_url w \<notin> set (w_url x # seen)"
      by (rule conjunct1)
    with w(2) show False by simp
  qed
  with Cons show ?case by simp
qed

lemma remdups_snoc: "remdups (ys @ [u]) = filter (\<lambda>x. x \<noteq> u) (remdups ys) @ [u]"
  by (induction ys) auto

lemma first_occurrences_Cons:
  "rev (remdups (rev (u # us))) = u # filter (\<lambda>x. x \<noteq> u) (rev (remdups (rev us)))"
  by (simp add: remdups_snoc rev_filter)

lemma uniqueWebsites_order:
  "map w_url (uniqueWebsites seen ws) =
     filter (\<lambda>u. u \<notin> set seen) (rev (remdups (rev (map w_url ws))))"
proof (induction ws arbitrary: seen)
  case Nil
  then show ?case by simp
next
  case (Cons x xs)
  let ?f = "rev (remdups (rev (map w_url xs)))"
  have step: "rev (remdups (rev (map w_url (x # xs)))) = w_url x # filter (\<lambda>y. y \<noteq> w_url x) ?f"
    using first_occurrences_Cons [of "w_url x" "map w_url xs"] by simp
  show ?case
  proof (cases "w_url x \<in> set seen")
    case True
    have "filter (\<lambda>u. u \<notin> set seen) (filter (\<lambda>y. y \<noteq> w_url x) ?f) = filter (\<lambda>u. u \<notin> set seen) ?f"
      using True by (auto intro: filter_cong)
    with True Cons.IH [of seen] show ?thesis
      by (simp only: step uniqueWebsites.simps) simp
  next
    case False
    have "filter (\<lambda>u. u \<notin> set seen) (filter (\<lambda>y. y \<noteq> w_url x) ?f) =
          filter (\<lambda>u. u \<notin> set (w_url x # seen)) ?f"
      by (auto intro: filter_cong)
    with False Cons.IH [of "w_url x # seen"] show ?thesis
      by (simp only: step uniqueWebsites.simps) simp
  qed
qed


lemma join_nonempty: "xs \<noteq> [] \<Longrightarrow> last xs \<noteq> [] \<Longrightarrow> join sep xs \<noteq> []"
  by (induction sep xs rule: join.induct) auto

lemma last_join: "xs \<noteq> [] \<Longrightarrow> last xs \<noteq> [] \<Longrightarrow> last (join sep xs) = last (last xs)"
proof (induction sep xs rule: join.induct)
  case (3 sep x y ys)
  then have "join sep (y # ys) \<noteq> []"
    by (intro join_nonempty) simp_all
  with 3 show ?case by simp
qed simp_all

lemma not_space_letters: "\<not> is_space CHR ''W''" "\<not> is_space CHR ''B''" "\<not> is_space CHR ''A''"
  by (simp_all add: is_space_def)

lemma format_explicit:
  assumes b: "trim bday = bday" and a: "trim about = about"
    and w: "bday = [] \<and> about = [] \<and> ws \<noteq> [] \<longrightarrow>
            ends_clean (website_line (last (uniqueWebsites [] ws)))"
  shows "format_additional_info ws bday about =
     join (newline @ newline)
       ((if ws \<noteq> [] then [''Websites:'' @ newline @ join newline (map website_line (uniqueWebsites [] ws))]
         else []) @
        (if bday \<noteq> [] then [''Birthday: '' @ bday] else []) @
        (if about \<noteq> [] then [''About:'' @ newline @ about] else []))"
    (is "_ = ?rhs")
proof (cases "ws = [] \<and> bday = [] \<and> about = []")
  case True
  then show ?thesis
    by (simp add: format_additional_info_def additional_info_parts_def trim_def)
next
  case False
  let ?L = "map website_line (uniqueWebsites [] ws)"
  have L: "ws \<noteq> [] \<Longrightarrow> ?L \<noteq> []"
    by (simp add: uniqueWebsites_nonempty)
  have parts: "join newline (additional_info_parts ws bday about []) = ?rhs @ newline"
    using L False by (simp add: additional_info_parts_def join_Cons join_append)
  have ne: "?rhs \<noteq> []"
    using False by auto
  have hd: "\<not> is_space (hd ?rhs)"
    using False by (auto simp: not_space_letters)
  have last: "\<not> is_space (last ?rhs)"
  proof (cases "about = []")
    case about: False
    with trimmed_ends [OF a] show ?thesis by simp
  next
    case about: True
    show ?thesis
    proof (cases "bday = []")
      case bday: False
      with about trimmed_ends [OF b] show ?thesis by simp
    next
      case bday: True
      with about False have ws: "ws \<noteq> []" by simp
      with about bday w have e: "ends_clean (last ?L)"
        by (simp add: last_map uniqueWebsites_nonempty)
      then have "last (join newline ?L) = last (last ?L)" "join newline ?L \<noteq> []"
        using L [OF ws] by (simp_all add: last_join join_nonempty ends_clean_def)
      with e about bday ws show ?thesis
        by (simp add: ends_clean_def)
    qed
  qed
  from trim_append_newline [OF ne hd last] parts show ?thesis
    by (simp add: format_additional_info_def)
qed


lemma trimmed_initial: "trimmed_texts (initial_data u)"
  by (simp add: trimmed_texts_def initial_data_def trim_def)

lemma trimmed_scrape_header: "trimmed_texts d \<Longrightarrow> trimmed_texts (scrape_header doc d)"
  by (simp add: trimmed_texts_def scrape_header_def Let_def split: option.splits prod.splits)

lemma trimmed_scrape_about: "trimmed_texts d \<Longrightarrow> trimmed_texts (scrape_about doc d)"
  by (simp add: trimmed_texts_def scrape_about_def trim_trim split: option.splits)

lemma trimmed_scrape_new_item: "trimmed_texts d \<Longrightarrow> trimmed_texts (scrape_new_item item d)"
  by (simp add: trimmed_texts_def scrape_new_item_def Let_def
      split: option.splits prod.splits list.splits)

lemma trimmed_scrape_experience: "trimmed_texts d \<Longrightarrow> trimmed_texts (scrape_experience doc d)"
  using trimmed_scrape_new_item
  by (auto simp: scrape_experience_def scrape_old_experience_def Let_def trimmed_texts_def
      split: option.splits prod.splits)

lemma find_first_trimmed: "find_first p (map trim ts) = Some b \<Longrightarrow> trim b = b"
  by (auto dest!: find_first_in_set simp: trim_trim)

lemma trimmed_scrape_contact_icons:
  "trimmed_texts d \<Longrightarrow> trimmed_texts (fst (scrape_contact_icons doc d))"
  by (auto simp: trimmed_texts_def scrape_contact_icons_def Let_def
      dest: find_first_trimmed split: option.splits)

lemma text_or_empty_trimmed: "trim (text_or_empty t) = text_or_empty t"
  by (cases t) (simp_all add: text_or_empty_def trim_trim, simp add: trim_def)

lemma modal_section_birthday:
  "birthday (fst (modal_section sec (d, ws))) = birthday d
   \<or> birthday (fst (modal_section sec (d, ws))) = text_or_empty (cs_t14_span sec)"
  by (simp add: modal_section_def Let_def split: option.splits)

lemma modal_section_about:
  "additional_info (fst (modal_section sec (d, ws))) = additional_info d"
  by (simp add: modal_section_def Let_def split: option.splits)

lemma trimmed_modal_section:
  "trimmed_texts (fst st) \<Longrightarrow> trimmed_texts (fst (modal_section sec st))"
proof (cases st)
  case (Pair d ws)
  assume "trimmed_texts (fst st)"
  with Pair have t: "trim (birthday d) = birthday d" "trim (additional_info d) = additional_info d"
    by (simp_all add: trimmed_texts_def)
  from modal_section_birthday [of sec d ws] t(1) text_or_empty_trimmed [of "cs_t14_span sec"]
  have "trim (birthday (fst (modal_section sec (d, ws)))) = birthday (fst (modal_section sec (d, ws)))"
    by auto
  with t(2) Pair show ?thesis
    by (simp add: trimmed_texts_def modal_section_about)
qed

lemma trimmed_modal_loop:
  "trimmed_texts (fst st) \<Longrightarrow> trimmed_texts (fst (modal_loop secs st))"
  by (induction secs arbitrary: st) (simp_all add: trimmed_modal_section)

lemma trimmed_scrape_modal:
  "trimmed_texts (fst st) \<Longrightarrow> trimmed_texts (fst (scrape_modal doc st))"
  by (simp add: scrape_modal_def trimmed_modal_loop split: option.splits)

lemma about_scrape_header: "additional_info (scrape_header doc d) = additional_info d"
  by (simp add: scrape_header_def Let_def split: option.splits prod.splits)

lemma about_scrape_about:
  "additional_info d = [] \<Longrightarrow> additional_info (scrape_about doc d) = text_or_empty (about_text doc)"
  by (simp add: scrape_about_def text_or_empty_def split: option.splits)

lemma about_scrape_new_item: "additional_info (scrape_new_item item d) = additional_info d"
  by (simp add: scrape_new_item_def Let_def split: option.splits prod.splits list.splits)

lemma about_scrape_experience: "additional_info (scrape_experience doc d) = additional_info d"
  by (simp add: scrape_experience_def scrape_old_experience_def Let_def about_scrape_new_item
      split: option.splits prod.splits)

lemma about_scrape_contact_icons:
  "additional_info (fst (scrape_contact_icons doc d)) = additional_info d"
  by (simp add: scrape_contact_icons_def Let_def split: option.splits)

lemma about_modal_loop: "additional_info (fst (modal_loop secs st)) = additional_info (fst st)"
proof (induction secs arbitrary: st)
  case Nil
  then show ?case by simp
next
  case (Cons sec secs)
  then show ?case by (cases st) (simp add: modal_section_about)
qed

lemma about_scrape_modal: "additional_info (fst (scrape_modal doc st)) = additional_info (fst st)"
  by (simp add: scrape_modal_def about_modal_loop split: option.splits)

lemma scraped_about_text:
  "additional_info (fst (scraped_fields doc)) = text_or_empty (about_text doc)"
  by (simp add: scraped_fields_def about_scrape_modal about_scrape_contact_icons
      about_scrape_experience about_scrape_about about_scrape_header initial_data_def)

lemma scraper_composes_what_it_scraped:
  assumes "scrapeLinkedInProfile doc = Inr d"
  shows "additional_info d =
           format_additional_info (snd (scraped_fields doc)) (birthday d)
             (text_or_empty (about_text doc))
         \<and> birthday d = birthday (fst (scraped_fields doc))
         \<and> trim (birthday d) = birthday d"
proof -
  obtain d' ws where st: "scraped_fields doc = (d', ws)" by (cases "scraped_fields doc")
  with assms have d: "d = d'\<lparr>additional_info := format_additional_info ws (birthday d') (additional_info d'),
                              name := trim (split_first newline (name d'))\<rparr>"
    by (auto simp: scrapeLinkedInProfile_def scraped_fields_def Let_def split: option.splits)
  have a: "additional_info d' = text_or_empty (about_text doc)"
    using scraped_about_text [of doc] st by simp
  have "trimmed_texts (fst (scraped_fields doc))"
    unfolding scraped_fields_def
    by (intro trimmed_scrape_modal trimmed_scrape_contact_icons trimmed_scrape_experience
        trimmed_scrape_about trimmed_scrape_header trimmed_initial)
  with st have "trim (birthday d') = birthday d'"
    by (simp add: trimmed_texts_def)
  with d a st show ?thesis by simp
qed

text \<open>
  The content script of \<open>background.js\<close> does what the specification says of the
  additional info. The merged text is the text of the overlay pass when that text is strictly
  longer than the text of the main pass, and the text of the main pass otherwise. The
  websites lose their repeated addresses: the first entry of every address stays, in order.
  The array of parts is the website block, the birthday line and the about block, in this
  order, and when the birthday and the about text are trimmed and the last website line does
  not end in white space where it ends the text, the text is exactly these blocks separated
  by blank lines. The record that the scraper returns is composed from the very website list,
  birthday and about text that it scraped, and its birthday is trimmed.
\<close>

lemma merge_and_composition:
  "additional_info (merge_contact_data main overlay) =
     (if length (additional_info overlay) > length (additional_info main)
      then additional_info overlay else additional_info main)
   \<and> distinct (map w_url (uniqueWebsites [] ws))
   \<and> map w_url (uniqueWebsites [] ws) = rev (remdups (rev (map w_url ws)))
   \<and> (\<forall>w \<in> set (uniqueWebsites [] ws). find_first (\<lambda>v. w_url v = w_url w) ws = Some w)
   \<and> additional_info_parts ws bday about [] =
       (if ws \<noteq> [] then [''Websites:''] @ map website_line (uniqueWebsites [] ws) @ [[]] else []) @
       (if bday \<noteq> [] then [''Birthday: '' @ bday, []] else []) @
       (if about \<noteq> [] then [''About:'', about, []] else [])
   \<and> (trim bday = bday \<and> trim about = about
        \<and> (bday = [] \<and> about = [] \<and> ws \<noteq> [] \<longrightarrow>
             ends_clean (website_line (last (uniqueWebsites [] ws)))) \<longrightarrow>
        format_additional_info ws bday about =
          join (newline @ newline)
            ((if ws \<noteq> []
              then [''Websites:'' @ newline @ join newline (map website_line (uniqueWebsites [] ws))]
              else []) @
             (if bday \<noteq> [] then [''Birthday: '' @ bday] else []) @
             (if about \<noteq> [] then [''About:'' @ newline @ about] else [])))
   \<and> (scrapeLinkedInProfile doc = Inr d \<longrightarrow>
        additional_info d =
          format_additional_info (snd (scraped_fields doc)) (birthday d)
            (text_or_empty (about_text doc))
        \<and> birthday d = birthday (fst (scraped_fields doc))
        \<and> trim (birthday d) = birthday d
        \<and> trim (text_or_empty (about_text doc)) = text_or_empty (about_text doc))"
proof -
  have merge: "additional_info (merge_contact_data main overlay) =
     (if length (additional_info overlay) > length (additional_info main)
      then additional_info overlay else additional_info main)"
    by (auto simp: merge_contact_data_def Let_def)
  have order: "map w_url (uniqueWebsites [] ws) = rev (remdups (rev (map w_url ws)))"
    by (simp add: uniqueWebsites_order)
  have first: "\<forall>w \<in> set (uniqueWebsites [] ws). find_first (\<lambda>v. w_url v = w_url w) ws = Some w"
    using uniqueWebsites_first [of _ "[]" ws] by blast
  have parts: "additional_info_parts ws bday about [] =
       (if ws \<noteq> [] then [''Websites:''] @ map website_line (uniqueWebsites [] ws) @ [[]] else []) @
       (if bday \<noteq> [] then [''Birthday: '' @ bday, []] else []) @
       (if about \<noteq> [] then [''About:'', about, []] else [])"
    by (simp add: additional_info_parts_def)
  from merge uniqueWebsites_distinct [of "[]" ws] order first parts
    format_explicit [of bday about ws] scraper_composes_what_it_scraped [of doc d]
    text_or_empty_trimmed [of "about_text doc"]
  show ?thesis by blast
qed

text \<open>The website list of the specification, with a birthday and an about text.\<close>

lemma composition_example:
  "map w_url (uniqueWebsites [] example_websites) = [''https://a.example'', ''https://b.example'']
   \<and> format_additional_info example_websites ''May 1'' ''Hello'' =
       ''Websites:'' @ newline @ ''https://a.example (Blog)'' @ newline @ ''https://b.example''
       @ newline @ newline @ ''Birthday: May 1'' @ newline @ newline @ ''About:'' @ newline @ ''Hello''"
proof -
  have t: "trim ''May 1'' = ''May 1''" "trim ''Hello'' = ''Hello''"
    by (simp_all add: trim_def is_space_def)
  have u: "uniqueWebsites [] example_websites =
             [\<lparr>w_url = ''https://a.example'', w_desc = ''Blog''\<rparr>,
              \<lparr>w_url = ''https://b.example'', w_desc = []\<rparr>]"
    by (simp add: example_websites_def)
  from format_explicit [of "''May 1''" "''Hello''" example_websites] t u
  show ?thesis
    by (auto simp: website_line_def example_websites_def)
qed

text \<open>
  C5. The claim: the merged additional info is the text of the overlay pass when it is
  strictly longer than the text of the main pass and the text of the main pass otherwise, and
  the text of a pass holds, in order, the websites without repeats, the birthday line and the
  about text. The older content script \<open>content.js\<close> does not do this. On a profile with
  the about text \<open>Hi\<close> and one website in its contact info modal, its main pass composes
  \<open>Hi\<close>, its overlay pass composes the about text first and the website list after it, and
  its merge appends the longer overlay text to the main text, so that the about text stands
  twice in the merged text, which is neither of the two texts. Its website list keeps
  repeated addresses.
\<close>

theorem old_merge_repeats_about:
  "additional_info old_main_pass = ''Hi''
   \<and> additional_info old_overlay_pass =
       ''Hi'' @ newline @ newline @ ''Websites:'' @ newline @ ''https://a.example/ (Blog)''
   \<and> length (additional_info old_overlay_pass) > length (additional_info old_main_pass)
   \<and> additional_info (merge_contact_data_old old_main_pass old_overlay_pass) =
       ''Hi'' @ newline @ newline @
       ''Hi'' @ newline @ newline @ ''Websites:'' @ newline @ ''https://a.example/ (Blog)''
   \<and> additional_info (merge_contact_data_old old_main_pass old_overlay_pass) \<noteq>
       additional_info old_overlay_pass
   \<and> old_website_list [example_link, example_link] =
       [''https://a.example/ (Blog)'', ''https://a.example/ (Blog)'']"
proof -
  have t: "trim ''(Blog)'' = ''(Blog)''"
    by (simp add: trim_def is_space_def)
  have l: "old_website_list [example_link] = [''https://a.example/ (Blog)'']"
    "old_website_list [example_link, example_link] =
       [''https://a.example/ (Blog)'', ''https://a.example/ (Blog)'']"
    by (simp_all add: old_website_list_def example_link_def text_or_empty_def t)
  have m: "additional_info old_main_pass = ''Hi''"
    by (simp add: old_main_pass_def compose_additional_info_old_def Let_def trim_def is_space_def
        newline_def)
  have o: "additional_info old_overlay_pass =
       ''Hi'' @ newline @ newline @ ''Websites:'' @ newline @ ''https://a.example/ (Blog)''"
    by (simp add: old_overlay_pass_def compose_additional_info_old_def Let_def l trim_def
        is_space_def newline_def)
  have g: "additional_info (merge_contact_data_old old_main_pass old_overlay_pass) =
       ''Hi'' @ newline @ newline @
       ''Hi'' @ newline @ newline @ ''Websites:'' @ newline @ ''https://a.example/ (Blog)''"
    by (simp add: merge_contact_data_old_def Let_def or_else_def m o trim_def is_space_def
        newline_def)
  from m o g l(2) show ?thesis by (simp add: newline_def)
qed

subsection \<open>The emptiness check of the two uploads\<close>

text \<open>
  The popup rejects an empty payload before any request: the requests are what they were and
  the status bar shows an error.
\<close>

lemma empty_payload_rejected_locally:
  assumes "isPayloadDataEmpty (Some (form_payload pst))"
  shows "popup_requests (handleUpload answer pst) = popup_requests pst
     \<and> result (handleUpload answer pst) =
          Some (if snd (checkCredentials pst) then ''Error: Cannot create an empty contact.''
                else ''Missing credentials or Backend URL in settings.'', ''error'')"
proof -
  have same: "form_payload (fst (checkCredentials pst)) = form_payload pst"
    by (rule ext) (simp add: form_payload_def checkCredentials_def Let_def updateResult_def)
  have req: "popup_requests (fst (checkCredentials pst)) = popup_requests pst"
    by (simp add: checkCredentials_def Let_def updateResult_def)
  have res: "\<not> snd (checkCredentials pst) \<Longrightarrow>
      result (fst (checkCredentials pst)) = Some (''Missing credentials or Backend URL in settings.'', ''error'')"
    by (simp add: checkCredentials_def Let_def updateResult_def)
  have 1: "popup_requests (handleUpload answer pst) = popup_requests pst"
    using assms same req
    by (cases "checkCredentials pst") (simp add: handleUpload_def updateResult_def)
  have 2: "result (handleUpload answer pst) =
          Some (if snd (checkCredentials pst) then ''Error: Cannot create an empty contact.''
                else ''Missing credentials or Backend URL in settings.'', ''error'')"
    using assms same res
    by (cases "checkCredentials pst") (auto simp: handleUpload_def updateResult_def)
  from 1 2 show ?thesis by simp
qed

lemma empty_payload_example:
  "isPayloadDataEmpty (Some (form_payload blank_popup))
   \<and> popup_requests (handleUpload (Response True 200 (Inr example_reply)) blank_popup) = []
   \<and> result (handleUpload (Response True 200 (Inr example_reply)) blank_popup) =
       Some (''Error: Cannot create an empty contact.'', ''error'')"
proof -
  have p: "isPayloadDataEmpty (Some (form_payload blank_popup))"
    by (simp add: isPayloadDataEmpty_def payloadKeyFields_def form_payload_def blank_popup_def
        formFields_def trim_def is_space_def)
  have c: "snd (checkCredentials blank_popup)"
    by (simp add: checkCredentials_def blank_popup_def example_popup_def Let_def)
  have r0: "popup_requests blank_popup = []"
    by (simp add: blank_popup_def example_popup_def)
  from empty_payload_rejected_locally [OF p, of "Response True 200 (Inr example_reply)"] p c r0
  show ?thesis by simp
qed

text \<open>
  The floating button never rejects a profile scraped from a page whose address starts like
  an absolute URL: the website of the main pass is the
  address of the page, the merge keeps a website that is not empty, and the website is a key
  field of \<open>isProfileDataEmpty\<close>.
\<close>

lemma website_merge:
  "website main \<noteq> [] \<Longrightarrow> website (merge_contact_data main overlay) \<noteq> []"
  by (simp add: merge_contact_data_def Let_def)

lemma scraped_page_not_classified_empty:
  assumes "scrapeProfileAndContactInfo pg = Inr p"
    and "href (main_doc pg) \<noteq> []" "hd (href (main_doc pg)) \<noteq> CHR ''?''"
      "hd (href (main_doc pg)) \<noteq> CHR ''/''"
  shows "\<not> isProfileDataEmpty (Some p)"
proof -
  from assms(1) obtain data where data: "scrapeLinkedInProfile (main_doc pg) = Inr data"
    by (auto simp: scrapeProfileAndContactInfo_def split: sum.splits)
  have w: "website data \<noteq> []"
    using scraped_website_nonempty [OF data] clean_current_url_nonempty [OF assms(2-4)] by simp
  from assms(1) data have "p = data \<or> (\<exists>contactData. p = merge_contact_data data contactData)"
    by (auto simp: scrapeProfileAndContactInfo_def split: sum.splits if_splits)
  with w website_merge [of data] have "website p \<noteq> []"
    by auto
  then show ?thesis
    by (simp add: isProfileDataEmpty_iff)
qed

lemma bare_scrape:
  "scrapeProfileAndContactInfo bare_page =
     Inr (empty_profile\<lparr>url := ''https://www.linkedin.com/in/a'',
                          website := ''https://www.linkedin.com/in/a''\<rparr>)"
proof -
  have "clean_current_url ''https://www.linkedin.com/in/a'' = ''https://www.linkedin.com/in/a''"
    by (simp add: clean_current_url_def)
  then show ?thesis
    by (simp add: scrapeProfileAndContactInfo_def bare_page_def blank_scrape_initial
        initial_data_def empty_profile_def)
qed

text \<open>
  C7. The claim: a profile classified as empty is rejected before any request, with an error
  shown. On the floating button the check cannot do this. On a profile page on which no
  selector finds anything, the scraped record holds the address of the page in \<open>url\<close> and
  \<open>website\<close> and nothing else; it is not classified as empty, the campaigns and then the
  contact are sent to the backend, the contact is reported as created with an empty name, and
  \<open>contactExists\<close> becomes true.
\<close>

theorem empty_scrape_is_uploaded:
  "scrapeProfileAndContactInfo bare_page = Inr website_only_profile
   \<and> \<not> isProfileDataEmpty (Some website_only_profile)
   \<and> requests example_content = []
   \<and> map req_url (requests (handleFloatingButtonClick bare_click
                              (example_content\<lparr>contactExists := False\<rparr>))) =
       [''http://localhost:8000/campaigns'', ''http://localhost:8000/create_contact'']
   \<and> contactExists (handleFloatingButtonClick bare_click (example_content\<lparr>contactExists := False\<rparr>))
   \<and> toast (handleFloatingButtonClick bare_click (example_content\<lparr>contactExists := False\<rparr>)) =
       Some (''Created: '', False)"
proof -
  have s: "scrapeProfileAndContactInfo bare_page = Inr website_only_profile"
    by (simp add: bare_scrape website_only_profile_def)
  have e: "\<not> isProfileDataEmpty (Some website_only_profile)"
    by (simp add: isProfileDataEmpty_iff website_only_profile_def empty_profile_def)
  have u: "strip_trailing_slashes ''http://localhost:8000/'' = ''http://localhost:8000''"
    by (simp add: strip_trailing_slashes_def)
  have n: "name website_only_profile = []"
    by (simp add: website_only_profile_def empty_profile_def)
  have t: "click_try bare_click (example_content\<lparr>contactExists := False, button_label := Processing, button_disabled := True\<rparr>)
           = create_contact ''http://localhost:8000'' website_only_profile [campaign_Q4, campaign_Q1] bare_click
               (send ''http://localhost:8000/campaigns'' []
                 (console_write Log (''Fetching campaigns from: http://localhost:8000/campaigns'')
                   (example_content\<lparr>contactExists := False, button_label := Processing, button_disabled := True,
                       odooCredentials := example_credentials\<rparr>)))"
    using s e u
    by (simp add: click_try_def bare_click_def example_click_def example_credentials_def
        load_campaigns_def Let_def)
  have c: "create_fetch bare_click = Response True 200 (Inr \<lparr>cr_person_id = Some ''7'', cr_detail = None\<rparr>)"
    by (simp add: bare_click_def example_click_def)
  have loc: "js_includes ''linkedin.com/in/'' (location bare_click)"
    by (simp add: bare_click_def example_click_def)
  have r0: "requests example_content = []"
    by (simp add: example_content_def)
  let ?st = "handleFloatingButtonClick bare_click (example_content\<lparr>contactExists := False\<rparr>)"
  have r: "map req_url (requests ?st) =
       [''http://localhost:8000/campaigns'', ''http://localhost:8000/create_contact'']"
    using r0 c n
    by (simp add: handleFloatingButtonClick_def Let_def t create_contact_def click_catch_def
        requests_simps)
  have x: "contactExists ?st"
    using c by (simp add: handleFloatingButtonClick_def Let_def t create_contact_def click_catch_def
        contactExists_simps)
  have y: "toast ?st = Some (''Created: '', False)"
    using c n by (simp add: handleFloatingButtonClick_def Let_def t create_contact_def click_catch_def
        toast_simps contactExists_simps)
  from s e r0 r x y show ?thesis by simp
qed

end
